theory Spec2Isabelle
  imports Main "HOL-Library.Stream"
begin

section \<open>Authentication and session lifecycle of the REST service\<close>

text \<open>
  A shallow embedding of the session core of the service: the error catalogue
  (\<^verbatim>\<open>pkg/apperror\<close>), the two persisted entities (\<^verbatim>\<open>internal/domain\<close>), the
  repositories over the database (\<^verbatim>\<open>internal/repository\<close>), the token service
  (\<^verbatim>\<open>internal/jwt\<close>) and the use case \<^verbatim>\<open>AuthUseCase\<close> (\<^verbatim>\<open>internal/usecase\<close>).

  The code is stateful and talks to collaborators that are not part of the
  repository (the database behind gorm, the clock, the randomness source, bcrypt and
  the JWT library). Every function that touches one of them takes the world and
  returns the updated world next to its result; Go's \<^verbatim>\<open>(value, error)\<close> results are
  sums with the error on the left, and a lone \<^verbatim>\<open>error\<close> result is an option.
\<close>

subsection \<open>Basic types\<close>

text \<open>
  A \<^verbatim>\<open>uuid.UUID\<close> is represented by its canonical text, so that \<^verbatim>\<open>UUID.String()\<close> is
  the identity. An instant (\<^verbatim>\<open>time.Time\<close>) is its number of nanoseconds since the Unix
  epoch and a \<^verbatim>\<open>time.Duration\<close> is a number of nanoseconds, as in Go; \<^verbatim>\<open>t.Add(d)\<close> is
  addition, \<^verbatim>\<open>t.After(u)\<close> is \<open>u < t\<close>, and \<^verbatim>\<open>t.Truncate(d)\<close> rounds down to a multiple
  of \<open>d\<close> (Go counts the multiples from its zero time, which is a whole number of
  seconds before the epoch, so for the whole seconds used here they are the same).
  The zero value of \<^verbatim>\<open>time.Time\<close> is the first instant of year 1.
\<close>

type_synonym UUID = string
type_synonym Time = int
type_synonym Duration = int

definition uuid_Nil :: UUID where
  "uuid_Nil = ''00000000-0000-0000-0000-000000000000''"

definition UUID_String :: "UUID \<Rightarrow> string" where
  "UUID_String u = u"

definition Millisecond :: Duration where
  "Millisecond = 1000000"

definition Second :: Duration where
  "Second = 1000000000"

definition time_zero :: Time where
  "time_zero = - 62135596800 * Second"

definition After :: "Time \<Rightarrow> Time \<Rightarrow> bool" where
  "After t u = (u < t)"

definition Add :: "Time \<Rightarrow> Duration \<Rightarrow> Time" where
  "Add t d = t + d"

definition Truncate :: "Time \<Rightarrow> Duration \<Rightarrow> Time" where
  "Truncate t d = (if d \<le> 0 then t else t - t mod d)"

subsection \<open>The error catalogue (\<^verbatim>\<open>pkg/apperror/errors.go\<close>)\<close>

datatype ErrorCode =
    ErrValidation
  | ErrBadRequest
  | ErrUnauthorized
  | ErrTokenExpired
  | ErrForbidden
  | ErrNotFound
  | ErrConflict
  | ErrFileTooLarge
  | ErrUnsupportedMedia
  | ErrInternal

text \<open>The wire text of a code, as the constants of the source give it.\<close>

fun ErrorCode_text :: "ErrorCode \<Rightarrow> string" where
  "ErrorCode_text ErrValidation = ''VALIDATION_ERROR''"
| "ErrorCode_text ErrBadRequest = ''BAD_REQUEST''"
| "ErrorCode_text ErrUnauthorized = ''UNAUTHORIZED''"
| "ErrorCode_text ErrTokenExpired = ''TOKEN_EXPIRED''"
| "ErrorCode_text ErrForbidden = ''FORBIDDEN''"
| "ErrorCode_text ErrNotFound = ''NOT_FOUND''"
| "ErrorCode_text ErrConflict = ''CONFLICT''"
| "ErrorCode_text ErrFileTooLarge = ''FILE_TOO_LARGE''"
| "ErrorCode_text ErrUnsupportedMedia = ''UNSUPPORTED_MEDIA_TYPE''"
| "ErrorCode_text ErrInternal = ''INTERNAL_ERROR''"

record FieldError =
  Field :: string
  Message :: string

text \<open>
  Go's \<^verbatim>\<open>error\<close> interface, with the dynamic types that reach this code: the
  sentinel \<^verbatim>\<open>gorm.ErrRecordNotFound\<close>, any other error of a library (the database
  driver, bcrypt, the randomness source) with its text, and the repository's own
  \<^verbatim>\<open>*AppError\<close>, whose \<^verbatim>\<open>Cause\<close> is again an error or nil.
\<close>

datatype error =
    ErrRecordNotFound
  | LibraryError string
  | AppError (HTTPStatus: int) (Code: ErrorCode) (Message: string)
             (Details: "FieldError list") (Cause: "error option")

definition StatusBadRequest :: int where "StatusBadRequest = 400"
definition StatusUnauthorized :: int where "StatusUnauthorized = 401"
definition StatusForbidden :: int where "StatusForbidden = 403"
definition StatusNotFound :: int where "StatusNotFound = 404"
definition StatusConflict :: int where "StatusConflict = 409"
definition StatusInternalServerError :: int where "StatusInternalServerError = 500"

definition New :: "int \<Rightarrow> ErrorCode \<Rightarrow> string \<Rightarrow> error" where
  "New status code message = AppError status code message [] None"

definition NewWithCause :: "int \<Rightarrow> ErrorCode \<Rightarrow> string \<Rightarrow> error \<Rightarrow> error" where
  "NewWithCause status code message cause = AppError status code message [] (Some cause)"

definition NotFound :: "string \<Rightarrow> error" where
  "NotFound resource = New StatusNotFound ErrNotFound (resource @ '' not found'')"

definition Unauthorized :: "string \<Rightarrow> error" where
  "Unauthorized msg = New StatusUnauthorized ErrUnauthorized msg"

definition TokenExpired :: error where
  "TokenExpired = New StatusUnauthorized ErrTokenExpired ''Access token has expired''"

definition Forbidden :: error where
  "Forbidden = New StatusForbidden ErrForbidden
     ''You do not have permission to perform this action''"

definition Conflict :: "string \<Rightarrow> error" where
  "Conflict msg = New StatusConflict ErrConflict msg"

definition Internal :: "error \<Rightarrow> error" where
  "Internal cause = NewWithCause StatusInternalServerError ErrInternal
     ''An unexpected error occurred. Please try again later.'' cause"

text \<open>
  \<^verbatim>\<open>errors.Is\<close>: the error itself or one reached through \<^verbatim>\<open>Unwrap\<close>, which for an
  \<^verbatim>\<open>*AppError\<close> returns its cause.
\<close>

fun errors_Is :: "error \<Rightarrow> error \<Rightarrow> bool" where
  "errors_Is (AppError s c m d (Some cause)) target =
     (AppError s c m d (Some cause) = target \<or> errors_Is cause target)"
| "errors_Is err target = (err = target)"

subsection \<open>Entities (\<^verbatim>\<open>internal/domain\<close>)\<close>

record User =
  ID :: UUID
  Name :: string
  Email :: string
  Password :: string
  Bio :: string
  AvatarID :: "UUID option"
  CreatedAt :: Time
  UpdatedAt :: Time

record UserPublic =
  ID :: UUID
  Name :: string
  Email :: string
  Bio :: string
  AvatarID :: "UUID option"
  CreatedAt :: Time

definition ToPublic :: "User \<Rightarrow> UserPublic" where
  "ToPublic u =
     \<lparr>UserPublic.ID = User.ID u,
      UserPublic.Name = User.Name u,
      UserPublic.Email = User.Email u,
      UserPublic.Bio = User.Bio u,
      UserPublic.AvatarID = User.AvatarID u,
      UserPublic.CreatedAt = User.CreatedAt u\<rparr>"

record RefreshToken =
  ID :: UUID
  UserID :: UUID
  Token :: string
  ExpiresAt :: Time
  CreatedAt :: Time

subsection \<open>The world: database, clock and randomness\<close>

text \<open>
  The two tables hold their rows in insertion order. The clock is one reading,
  \<open>now\<close>; a call is taken to be instantaneous, and later calls may see a later
  reading. The remaining fields script what the collaborators will answer:
  \<^item> \<open>db_faults\<close>: for each coming statement sent through gorm, \<open>None\<close> when the
    database executes it and \<open>Some text\<close> when the driver fails with that error
    (connection lost, context cancelled, ...); a failed statement changes no table;
  \<^item> \<open>db_uuids\<close>: the values of the column default \<^verbatim>\<open>gen_random_uuid()\<close>;
  \<^item> \<open>rand_uuids\<close>: the results of \<^verbatim>\<open>uuid.NewRandom()\<close>, \<open>None\<close> when the randomness
    source fails.
\<close>

record World =
  users :: "User list"
  refresh_tokens :: "RefreshToken list"
  now :: Time
  db_faults :: "string option stream"
  db_uuids :: "UUID stream"
  rand_uuids :: "UUID option stream"

definition time_Now :: "World \<Rightarrow> Time" where
  "time_Now w = now w"

definition IsExpired :: "World \<Rightarrow> RefreshToken \<Rightarrow> bool" where
  "IsExpired w r = After (time_Now w) (RefreshToken.ExpiresAt r)"

text \<open>
  \<^verbatim>\<open>uuid.NewRandom()\<close> takes the next result of the randomness source.
\<close>

definition uuid_NewRandom :: "World \<Rightarrow> (error + UUID) \<times> World" where
  "uuid_NewRandom w =
     (case shd (rand_uuids w) of
        None \<Rightarrow> (Inl (LibraryError ''crypto/rand: read failed''),
                 w\<lparr>rand_uuids := stl (rand_uuids w)\<rparr>)
      | Some u \<Rightarrow> (Inr u, w\<lparr>rand_uuids := stl (rand_uuids w)\<rparr>))"

subsection \<open>The statements gorm sends\<close>

text \<open>
  What the repositories use of gorm, on the two tables:
  \<^item> \<^verbatim>\<open>First(&row, cond)\<close> yields the first row that meets the condition, or
    \<^verbatim>\<open>gorm.ErrRecordNotFound\<close> (both tables have a unique index on the column the
    code searches, so at most one row of a table the code built can match);
  \<^item> \<^verbatim>\<open>Create(row)\<close> fills the zero-valued key from the column default and the
    zero-valued timestamps from the clock, and inserts the row unless a unique
    index (the key, the user's email, the token value) would be violated;
  \<^item> \<^verbatim>\<open>Where(cond).Delete(...)\<close> removes every row that meets the condition and
    reports no error when there is none.
  Each of them first takes the driver's scripted outcome for the statement.
\<close>

definition db_statement :: "World \<Rightarrow> string option \<times> World" where
  "db_statement w = (shd (db_faults w), w\<lparr>db_faults := stl (db_faults w)\<rparr>)"

definition gorm_First :: "'r list \<Rightarrow> ('r \<Rightarrow> bool) \<Rightarrow> error + 'r" where
  "gorm_First rows cond =
     (case find cond rows of None \<Rightarrow> Inl ErrRecordNotFound | Some r \<Rightarrow> Inr r)"

definition First_User :: "World \<Rightarrow> (User \<Rightarrow> bool) \<Rightarrow> (error + User) \<times> World" where
  "First_User w cond =
     (case db_statement w of
        (Some msg, w') \<Rightarrow> (Inl (LibraryError msg), w')
      | (None, w') \<Rightarrow> (gorm_First (users w') cond, w'))"

definition First_RefreshToken ::
  "World \<Rightarrow> (RefreshToken \<Rightarrow> bool) \<Rightarrow> (error + RefreshToken) \<times> World" where
  "First_RefreshToken w cond =
     (case db_statement w of
        (Some msg, w') \<Rightarrow> (Inl (LibraryError msg), w')
      | (None, w') \<Rightarrow> (gorm_First (refresh_tokens w') cond, w'))"

definition duplicate_key :: error where
  "duplicate_key = LibraryError ''duplicate key value violates unique constraint''"

definition Create_User :: "World \<Rightarrow> User \<Rightarrow> (error + User) \<times> World" where
  "Create_User w user =
     (case db_statement w of
        (Some msg, w') \<Rightarrow> (Inl (LibraryError msg), w')
      | (None, w') \<Rightarrow>
          (let keyed = (User.ID user = uuid_Nil);
               row = user\<lparr>User.ID := (if keyed then shd (db_uuids w') else User.ID user),
                          User.CreatedAt := (if User.CreatedAt user = time_zero
                                             then time_Now w' else User.CreatedAt user),
                          User.UpdatedAt := (if User.UpdatedAt user = time_zero
                                             then time_Now w' else User.UpdatedAt user)\<rparr>;
               w'' = (if keyed then w'\<lparr>db_uuids := stl (db_uuids w')\<rparr> else w')
           in if list_ex (\<lambda>u. User.ID u = User.ID row \<or> User.Email u = User.Email row)
                   (users w'')
              then (Inl duplicate_key, w'')
              else (Inr row, w''\<lparr>users := users w'' @ [row]\<rparr>)))"

definition Create_RefreshToken ::
  "World \<Rightarrow> RefreshToken \<Rightarrow> (error + RefreshToken) \<times> World" where
  "Create_RefreshToken w token =
     (case db_statement w of
        (Some msg, w') \<Rightarrow> (Inl (LibraryError msg), w')
      | (None, w') \<Rightarrow>
          (let keyed = (RefreshToken.ID token = uuid_Nil);
               row = token\<lparr>RefreshToken.ID :=
                             (if keyed then shd (db_uuids w') else RefreshToken.ID token),
                           RefreshToken.CreatedAt :=
                             (if RefreshToken.CreatedAt token = time_zero
                              then time_Now w' else RefreshToken.CreatedAt token)\<rparr>;
               w'' = (if keyed then w'\<lparr>db_uuids := stl (db_uuids w')\<rparr> else w')
           in if list_ex (\<lambda>r. RefreshToken.ID r = RefreshToken.ID row \<or> Token r = Token row)
                   (refresh_tokens w'')
              then (Inl duplicate_key, w'')
              else (Inr row, w''\<lparr>refresh_tokens := refresh_tokens w'' @ [row]\<rparr>)))"

definition Delete_RefreshToken ::
  "World \<Rightarrow> (RefreshToken \<Rightarrow> bool) \<Rightarrow> error option \<times> World" where
  "Delete_RefreshToken w cond =
     (case db_statement w of
        (Some msg, w') \<Rightarrow> (Some (LibraryError msg), w')
      | (None, w') \<Rightarrow>
          (None, w'\<lparr>refresh_tokens := filter (\<lambda>r. \<not> cond r) (refresh_tokens w')\<rparr>))"

subsection \<open>Repositories (\<^verbatim>\<open>internal/repository\<close>)\<close>

text \<open>
  \<^verbatim>\<open>userRepository\<close>. \<^verbatim>\<open>Create\<close> returns an error only; the row it hands back
  here stands for the struct of the caller, into which gorm writes the generated
  key and timestamps.
\<close>

definition Create :: "World \<Rightarrow> User \<Rightarrow> (error + User) \<times> World" where
  "Create w user =
     (case Create_User w user of
        (Inl err, w') \<Rightarrow> (Inl (Internal err), w')
      | (Inr user', w') \<Rightarrow> (Inr user', w'))"

definition GetByID :: "World \<Rightarrow> UUID \<Rightarrow> (error + User) \<times> World" where
  "GetByID w uid =
     (case First_User w (\<lambda>u. User.ID u = uid) of
        (Inl err, w') \<Rightarrow>
          (if errors_Is err ErrRecordNotFound then (Inl (NotFound ''User''), w')
           else (Inl (Internal err), w'))
      | (Inr user, w') \<Rightarrow> (Inr user, w'))"

definition GetByEmail :: "World \<Rightarrow> string \<Rightarrow> (error + User) \<times> World" where
  "GetByEmail w email =
     (case First_User w (\<lambda>u. User.Email u = email) of
        (Inl err, w') \<Rightarrow>
          (if errors_Is err ErrRecordNotFound then (Inl (NotFound ''User''), w')
           else (Inl (Internal err), w'))
      | (Inr user, w') \<Rightarrow> (Inr user, w'))"

text \<open>
  \<^verbatim>\<open>refreshTokenRepository\<close>. \<^verbatim>\<open>Save\<close> wraps the error of the insert; the two
  delete functions return gorm's error as it is.
\<close>

definition Save :: "World \<Rightarrow> RefreshToken \<Rightarrow> error option \<times> World" where
  "Save w token =
     (case Create_RefreshToken w token of
        (Inl err, w') \<Rightarrow> (Some (Internal err), w')
      | (Inr _, w') \<Rightarrow> (None, w'))"

definition GetByToken :: "World \<Rightarrow> string \<Rightarrow> (error + RefreshToken) \<times> World" where
  "GetByToken w tokenStr =
     (case First_RefreshToken w (\<lambda>r. Token r = tokenStr) of
        (Inl err, w') \<Rightarrow>
          (if errors_Is err ErrRecordNotFound
           then (Inl (Unauthorized ''refresh token not found or already used''), w')
           else (Inl (Internal err), w'))
      | (Inr token, w') \<Rightarrow> (Inr token, w'))"

definition DeleteByToken :: "World \<Rightarrow> string \<Rightarrow> error option \<times> World" where
  "DeleteByToken w tokenStr = Delete_RefreshToken w (\<lambda>r. Token r = tokenStr)"

definition DeleteAllForUser :: "World \<Rightarrow> UUID \<Rightarrow> error option \<times> World" where
  "DeleteAllForUser w userID = Delete_RefreshToken w (\<lambda>r. RefreshToken.UserID r = userID)"

subsection \<open>The JWT library, symbolically\<close>

text \<open>
  The access token is produced and checked by the library \<^verbatim>\<open>golang-jwt/jwt/v5\<close>,
  which is not part of the repository. It is modelled symbolically, the way
  protocol proofs model cryptography: a token string is either not the compact
  three-segment form with a known \<^verbatim>\<open>alg\<close>, or it carries a signing method, a payload
  (one that decodes into the \<^verbatim>\<open>Claims\<close> structure, or one that does not) and a
  signature; a signature is the HMAC tag of a signing string under a key, or any
  other bytes. Two tags are equal only when algorithm, key and signing string are:
  nobody forges a tag. A numeric date of the claims holds whole seconds:
  \<^verbatim>\<open>NewNumericDate\<close> truncates the instant it is given to \<^verbatim>\<open>TimePrecision\<close>, one second.
  Encoding the claims and decoding them again gives the same claims.
\<close>

definition TimePrecision :: Duration where
  "TimePrecision = Second"

definition NewNumericDate :: "Time \<Rightarrow> Time" where
  "NewNumericDate t = Truncate t TimePrecision"

record RegisteredClaims =
  Subject :: string
  ExpiresAt :: "Time option"
  NotBefore :: "Time option"
  IssuedAt :: "Time option"

record Claims =
  UserID :: UUID
  Email :: string
  RegisteredClaims :: RegisteredClaims

datatype SigningMethod =
    SigningMethodHMAC string
  | SigningMethodRSA string
  | SigningMethodRSAPSS string
  | SigningMethodECDSA string
  | SigningMethodEd25519
  | SigningMethodNone

definition SigningMethodHS256 :: SigningMethod where
  "SigningMethodHS256 = SigningMethodHMAC ''HS256''"

datatype payload = ClaimsJSON Claims | OtherJSON string

type_synonym signing_string = "SigningMethod \<times> payload"

datatype signature = HMAC_tag string string signing_string | SignatureBytes string

datatype TokenString = Compact SigningMethod payload signature | NotCompact string

record Token =
  Method :: SigningMethod
  Claims :: Claims
  Signature :: signature
  Valid :: bool

datatype gojwt_sentinel =
    gojwt_ErrTokenMalformed
  | gojwt_ErrTokenUnverifiable
  | gojwt_ErrTokenSignatureInvalid
  | gojwt_ErrTokenInvalidClaims
  | gojwt_ErrTokenExpired
  | gojwt_ErrTokenNotValidYet

text \<open>
  The error of a parse joins sentinel errors and may wrap the error of the key
  function; \<^verbatim>\<open>errors.Is\<close> against a sentinel finds it among the joined ones.
\<close>

datatype gojwt_error = Joined "gojwt_sentinel list" "error option"

fun gojwt_errors_Is :: "gojwt_error \<Rightarrow> gojwt_sentinel \<Rightarrow> bool" where
  "gojwt_errors_Is (Joined sentinels cause) target = (target \<in> set sentinels)"

definition NewWithClaims :: "SigningMethod \<Rightarrow> Claims \<Rightarrow> Token" where
  "NewWithClaims method claims =
     \<lparr>Method = method, Claims = claims, Signature = SignatureBytes [], Valid = False\<rparr>"

definition Sign :: "SigningMethod \<Rightarrow> signing_string \<Rightarrow> string \<Rightarrow> error + signature" where
  "Sign method signingString key =
     (case method of
        SigningMethodHMAC alg \<Rightarrow> Inr (HMAC_tag alg key signingString)
      | _ \<Rightarrow> Inl (LibraryError ''key is of invalid type''))"

definition Verify :: "SigningMethod \<Rightarrow> signing_string \<Rightarrow> signature \<Rightarrow> string \<Rightarrow> bool" where
  "Verify method signingString sig key =
     (case method of
        SigningMethodHMAC alg \<Rightarrow> sig = HMAC_tag alg key signingString
      | _ \<Rightarrow> False)"

definition SignedString :: "Token \<Rightarrow> string \<Rightarrow> error + TokenString" where
  "SignedString token key =
     (let signingString = (Method token, ClaimsJSON (Claims token))
      in case Sign (Method token) signingString key of
           Inl err \<Rightarrow> Inl err
         | Inr sig \<Rightarrow> Inr (Compact (Method token) (ClaimsJSON (Claims token)) sig))"

text \<open>
  The default validator: the expiry, when present, must be after the current time;
  the not-before instant, when present, must not be; issued-at is not checked.
\<close>

definition Validate :: "Time \<Rightarrow> Claims \<Rightarrow> gojwt_sentinel list" where
  "Validate t claims =
     (case RegisteredClaims.ExpiresAt (RegisteredClaims claims) of
        None \<Rightarrow> []
      | Some exp \<Rightarrow> if t < exp then [] else [gojwt_ErrTokenExpired])
     @ (case NotBefore (RegisteredClaims claims) of
        None \<Rightarrow> []
      | Some nbf \<Rightarrow> if t < nbf then [gojwt_ErrTokenNotValidYet] else [])"

text \<open>
  \<^verbatim>\<open>ParseWithClaims\<close>, in the order of version 5: decode the segments, ask the key
  function for the key, verify the signature, validate the claims at the current
  time, and only then mark the token valid.
\<close>

definition ParseWithClaims ::
  "Time \<Rightarrow> TokenString \<Rightarrow> (Token \<Rightarrow> error + string) \<Rightarrow> gojwt_error + Token" where
  "ParseWithClaims t tokenString keyFunc =
     (case tokenString of
        NotCompact _ \<Rightarrow> Inl (Joined [gojwt_ErrTokenMalformed] None)
      | Compact method body sig \<Rightarrow>
          (case body of
             OtherJSON _ \<Rightarrow> Inl (Joined [gojwt_ErrTokenMalformed] None)
           | ClaimsJSON claims \<Rightarrow>
               (let token = \<lparr>Method = method, Claims = claims, Signature = sig,
                             Valid = False\<rparr>
                in case keyFunc token of
                     Inl err \<Rightarrow> Inl (Joined [gojwt_ErrTokenUnverifiable] (Some err))
                   | Inr key \<Rightarrow>
                       if \<not> Verify method (method, body) sig key
                       then Inl (Joined [gojwt_ErrTokenSignatureInvalid] None)
                       else (case Validate t claims of
                               [] \<Rightarrow> Inr (token\<lparr>Valid := True\<rparr>)
                             | errs \<Rightarrow> Inl (Joined (gojwt_ErrTokenInvalidClaims # errs) None)))))"

subsection \<open>The token service (\<^verbatim>\<open>internal/jwt\<close>)\<close>

record JWTConfig =
  AccessSecret :: string
  RefreshSecret :: string
  AccessExpiresDuration :: Duration
  RefreshExpiresDuration :: Duration

record Service =
  cfg :: JWTConfig

definition GenerateAccessToken :: "Service \<Rightarrow> World \<Rightarrow> UUID \<Rightarrow> string \<Rightarrow> error + TokenString" where
  "GenerateAccessToken s w userID email =
     (let claims =
            \<lparr>UserID = userID,
             Email = email,
             RegisteredClaims =
               \<lparr>Subject = UUID_String userID,
                ExpiresAt =
                  Some (NewNumericDate (Add (time_Now w) (AccessExpiresDuration (cfg s)))),
                NotBefore = None,
                IssuedAt = Some (NewNumericDate (time_Now w))\<rparr>\<rparr>;
          token = NewWithClaims SigningMethodHS256 claims
      in SignedString token (AccessSecret (cfg s)))"

definition GenerateRefreshToken :: "Service \<Rightarrow> World \<Rightarrow> (error + string) \<times> World" where
  "GenerateRefreshToken s w =
     (case uuid_NewRandom w of
        (Inl err, w') \<Rightarrow> (Inl err, w')
      | (Inr uid, w') \<Rightarrow> (Inr (UUID_String uid), w'))"

text \<open>
  The key function accepts the HMAC family only. The claims the library hands back
  are the \<^verbatim>\<open>*Claims\<close> value it was given, so the type assertion of the source holds
  (\<open>ok\<close>) whenever it is reached.
\<close>

definition keyFunc :: "Service \<Rightarrow> Token \<Rightarrow> error + string" where
  "keyFunc s t =
     (case Method t of
        SigningMethodHMAC _ \<Rightarrow> Inr (AccessSecret (cfg s))
      | _ \<Rightarrow> Inl (Unauthorized ''unexpected signing method''))"

definition ValidateAccessToken :: "Service \<Rightarrow> World \<Rightarrow> TokenString \<Rightarrow> error + Claims" where
  "ValidateAccessToken s w tokenStr =
     (case ParseWithClaims (time_Now w) tokenStr (keyFunc s) of
        Inl err \<Rightarrow>
          if gojwt_errors_Is err gojwt_ErrTokenExpired then Inl TokenExpired
          else Inl (Unauthorized ''invalid or malformed token'')
      | Inr token \<Rightarrow>
          (let ok = True
           in if \<not> ok \<or> \<not> Valid token then Inl (Unauthorized ''invalid token claims'')
              else Inr (Claims token)))"

subsection \<open>The use case (\<^verbatim>\<open>internal/usecase\<close>, \<^verbatim>\<open>AuthUseCase\<close>)\<close>

record RegisterInput =
  Name :: string
  Email :: string
  Password :: string

record LoginInput =
  Email :: string
  Password :: string

record TokenPair =
  AccessToken :: TokenString
  RefreshToken :: string
  TokenType :: string

text \<open>
  The use case holds the token service and the token configuration; its two
  repositories are the ones above, acting on the world. bcrypt is a parameter: any
  pair of functions with the library's signatures.
\<close>

record AuthUseCase =
  jwtService :: Service
  jwtCfg :: JWTConfig

record bcrypt =
  GenerateFromPassword :: "string \<Rightarrow> int \<Rightarrow> error + string"
  CompareHashAndPassword :: "string \<Rightarrow> string \<Rightarrow> error option"

definition DefaultCost :: int where
  "DefaultCost = 10"

text \<open>\<^verbatim>\<open>strings.ToLower\<close>, on the ASCII letters; every other byte is kept.\<close>

definition lower_byte :: "char \<Rightarrow> char" where
  "lower_byte c =
     (if 65 \<le> (of_char c :: nat) \<and> (of_char c :: nat) \<le> 90
      then char_of ((of_char c :: nat) + 32) else c)"

definition ToLower :: "string \<Rightarrow> string" where
  "ToLower s = map lower_byte s"

definition issueTokenPair :: "AuthUseCase \<Rightarrow> World \<Rightarrow> User \<Rightarrow> (error + TokenPair) \<times> World" where
  "issueTokenPair uc w user =
     (case GenerateAccessToken (jwtService uc) w (User.ID user) (User.Email user) of
        Inl err \<Rightarrow> (Inl (Internal err), w)
      | Inr accessToken \<Rightarrow>
          (case GenerateRefreshToken (jwtService uc) w of
             (Inl err, w1) \<Rightarrow> (Inl (Internal err), w1)
           | (Inr refreshTokenStr, w1) \<Rightarrow>
               (let refreshRecord =
                      \<lparr>RefreshToken.ID = uuid_Nil,
                       RefreshToken.UserID = User.ID user,
                       RefreshToken.Token = refreshTokenStr,
                       RefreshToken.ExpiresAt =
                         Add (time_Now w1) (RefreshExpiresDuration (jwtCfg uc)),
                       RefreshToken.CreatedAt = time_zero\<rparr>
                in case Save w1 refreshRecord of
                     (Some err, w2) \<Rightarrow> (Inl err, w2)
                   | (None, w2) \<Rightarrow>
                       (Inr \<lparr>AccessToken = accessToken,
                             RefreshToken = refreshTokenStr,
                             TokenType = ''Bearer''\<rparr>, w2))))"

definition Register ::
  "bcrypt \<Rightarrow> AuthUseCase \<Rightarrow> World \<Rightarrow> RegisterInput \<Rightarrow> (error + UserPublic) \<times> World" where
  "Register bc uc w input =
     (case GetByEmail w (ToLower (RegisterInput.Email input)) of
        (Inr _, w1) \<Rightarrow> (Inl (Conflict ''Email is already registered''), w1)
      | (Inl _, w1) \<Rightarrow>
          (case GenerateFromPassword bc (RegisterInput.Password input) DefaultCost of
             Inl err \<Rightarrow> (Inl (Internal err), w1)
           | Inr hash \<Rightarrow>
               (let user =
                      \<lparr>User.ID = uuid_Nil,
                       User.Name = RegisterInput.Name input,
                       User.Email = ToLower (RegisterInput.Email input),
                       User.Password = hash,
                       User.Bio = [],
                       User.AvatarID = None,
                       User.CreatedAt = time_zero,
                       User.UpdatedAt = time_zero\<rparr>
                in case Create w1 user of
                     (Inl err, w2) \<Rightarrow> (Inl err, w2)
                   | (Inr user', w2) \<Rightarrow> (Inr (ToPublic user'), w2))))"

definition Login ::
  "bcrypt \<Rightarrow> AuthUseCase \<Rightarrow> World \<Rightarrow> LoginInput \<Rightarrow> (error + TokenPair) \<times> World" where
  "Login bc uc w input =
     (case GetByEmail w (ToLower (LoginInput.Email input)) of
        (Inl err, w1) \<Rightarrow> (Inl (Unauthorized ''Invalid email or password''), w1)
      | (Inr user, w1) \<Rightarrow>
          (case CompareHashAndPassword bc (User.Password user) (LoginInput.Password input) of
             Some err \<Rightarrow> (Inl (Unauthorized ''Invalid email or password''), w1)
           | None \<Rightarrow> issueTokenPair uc w1 user))"

definition Refresh :: "AuthUseCase \<Rightarrow> World \<Rightarrow> string \<Rightarrow> (error + TokenPair) \<times> World" where
  "Refresh uc w refreshTokenStr =
     (case GetByToken w refreshTokenStr of
        (Inl err, w1) \<Rightarrow> (Inl err, w1)
      | (Inr storedToken, w1) \<Rightarrow>
          if IsExpired w1 storedToken
          then (case DeleteByToken w1 refreshTokenStr of
                  (_, w2) \<Rightarrow>
                    (Inl (Unauthorized ''Refresh token has expired, please login again''), w2))
          else (case GetByID w1 (RefreshToken.UserID storedToken) of
                  (Inl err, w2) \<Rightarrow> (Inl err, w2)
                | (Inr user, w2) \<Rightarrow>
                    (case DeleteByToken w2 refreshTokenStr of
                       (_, w3) \<Rightarrow> issueTokenPair uc w3 user)))"


subsection \<open>The notions the claims about access tokens use\<close>

text \<open>
  A token string is correctly signed with a secret when it is in compact form, names
  a method of the HMAC family, carries claims, and its signature is the tag of its
  own signing string under that secret. It is past its expiry at an instant when
  its claims carry an expiry that is not after that instant.
\<close>

definition correctly_signed :: "string \<Rightarrow> TokenString \<Rightarrow> bool" where
  "correctly_signed secret tokenStr =
     (case tokenStr of
        Compact (SigningMethodHMAC alg) (ClaimsJSON claims) sig \<Rightarrow>
          sig = HMAC_tag alg secret (SigningMethodHMAC alg, ClaimsJSON claims)
      | _ \<Rightarrow> False)"

definition past_expiry :: "Time \<Rightarrow> TokenString \<Rightarrow> bool" where
  "past_expiry t tokenStr =
     (case tokenStr of
        Compact method (ClaimsJSON claims) sig \<Rightarrow>
          (case RegisteredClaims.ExpiresAt (RegisteredClaims claims) of
             Some exp \<Rightarrow> \<not> t < exp
           | None \<Rightarrow> False)
      | _ \<Rightarrow> False)"

subsection \<open>A concrete world\<close>

text \<open>
  One user, Ann, with one live session that ends at second 2000; a configuration
  with a quarter of an hour for access tokens and a week for refresh tokens; and a
  stand-in for bcrypt that prefixes the password, which is enough to tell the right
  password from a wrong one. The clock of the world reads second 1000.
\<close>

definition cfg0 :: JWTConfig where
  "cfg0 = \<lparr>AccessSecret = ''access-secret'', RefreshSecret = ''refresh-secret'',
           AccessExpiresDuration = 900 * Second,
           RefreshExpiresDuration = 604800 * Second\<rparr>"

definition uc0 :: AuthUseCase where
  "uc0 = \<lparr>jwtService = \<lparr>cfg = cfg0\<rparr>, jwtCfg = cfg0\<rparr>"

definition bc0 :: bcrypt where
  "bc0 = \<lparr>GenerateFromPassword = (\<lambda>password cost. Inr (''$2a$10$'' @ password)),
          CompareHashAndPassword = (\<lambda>hash password.
             if hash = ''$2a$10$'' @ password then None
             else Some (LibraryError ''hashedPassword is not the hash of the given password''))\<rparr>"

definition ann :: User where
  "ann = \<lparr>User.ID = ''user-1'', User.Name = ''Ann'', User.Email = ''ann@x.com'',
          User.Password = ''$2a$10$password123'', User.Bio = [], User.AvatarID = None,
          User.CreatedAt = 10 * Second, User.UpdatedAt = 10 * Second\<rparr>"

definition refreshA :: RefreshToken where
  "refreshA = \<lparr>RefreshToken.ID = ''key-1'', RefreshToken.UserID = ''user-1'',
               RefreshToken.Token = ''refresh-A'',
               RefreshToken.ExpiresAt = 2000 * Second,
               RefreshToken.CreatedAt = 20 * Second\<rparr>"

text \<open>The session a first rotation in that world creates.\<close>

definition refreshB :: RefreshToken where
  "refreshB = \<lparr>RefreshToken.ID = ''key-2'', RefreshToken.UserID = ''user-1'',
               RefreshToken.Token = ''refresh-B'',
               RefreshToken.ExpiresAt = 605800 * Second,
               RefreshToken.CreatedAt = 1000 * Second\<rparr>"

definition world0 :: World where
  "world0 = \<lparr>users = [ann], refresh_tokens = [refreshA], now = 1000 * Second,
             db_faults = sconst None,
             db_uuids = ''key-2'' ## ''key-3'' ## sconst ''key-4'',
             rand_uuids = Some ''refresh-B'' ## Some ''refresh-C'' ## sconst None\<rparr>"

text \<open>The same world with a database that fails on the first statement it is sent.\<close>

definition world_first_fails :: World where
  "world_first_fails = world0\<lparr>db_faults := Some ''connection reset by peer'' ## sconst None\<rparr>"

text \<open>The same world with a database that fails on the third statement only.\<close>

definition world_third_fails :: World where
  "world_third_fails =
     world0\<lparr>db_faults := None ## None ## Some ''connection reset by peer'' ## sconst None\<rparr>"

text \<open>The same world at the very instant Ann's session expires, and well after it.\<close>

definition world_edge :: World where
  "world_edge = world0\<lparr>now := 2000 * Second\<rparr>"

definition world_late :: World where
  "world_late = world0\<lparr>now := 3000 * Second\<rparr>"

text \<open>
  The late world with a database that fails on the first statement, and on the
  second statement only.
\<close>

definition world_late_first_fails :: World where
  "world_late_first_fails =
     world_late\<lparr>db_faults := Some ''connection reset by peer'' ## sconst None\<rparr>"

definition world_late_second_fails :: World where
  "world_late_second_fails =
     world_late\<lparr>db_faults := None ## Some ''connection reset by peer'' ## sconst None\<rparr>"

text \<open>The first world with a database that fails on the third and the fourth statement.\<close>

definition world_third_fourth_fail :: World where
  "world_third_fourth_fail =
     world0\<lparr>db_faults := None ## None ## Some ''connection reset by peer''
                          ## Some ''connection reset by peer'' ## sconst None\<rparr>"

text \<open>
  The first world half a second later, and a world 0.3 seconds before the quarter
  of an hour that starts there is over.
\<close>

definition world_half :: World where
  "world_half = world0\<lparr>now := 1000 * Second + 500 * Millisecond\<rparr>"

definition world_almost :: World where
  "world_almost = world0\<lparr>now := 1900 * Second + 200 * Millisecond\<rparr>"

definition login_unknown :: LoginInput where
  "login_unknown = \<lparr>LoginInput.Email = ''bob@x.com'', LoginInput.Password = ''password123''\<rparr>"

definition login_wrong :: LoginInput where
  "login_wrong = \<lparr>LoginInput.Email = ''Ann@X.com'', LoginInput.Password = ''letmein''\<rparr>"

definition register_ann :: RegisterInput where
  "register_ann = \<lparr>RegisterInput.Name = ''Ann'', RegisterInput.Email = ''Ann@X.com'',
                   RegisterInput.Password = ''password123''\<rparr>"

definition register_bob :: RegisterInput where
  "register_bob = \<lparr>RegisterInput.Name = ''Bob'', RegisterInput.Email = ''Bob@X.com'',
                   RegisterInput.Password = ''correct horse''\<rparr>"

definition claims0 :: Claims where
  "claims0 = \<lparr>UserID = ''user-1'', Email = ''ann@x.com'',
              RegisteredClaims = \<lparr>Subject = ''user-1'', ExpiresAt = Some (1900 * Second),
                                   NotBefore = None,
                                   IssuedAt = Some (1000 * Second)\<rparr>\<rparr>"

definition access0 :: TokenString where
  "access0 = Compact SigningMethodHS256 (ClaimsJSON claims0)
               (HMAC_tag ''HS256'' ''access-secret'' (SigningMethodHS256, ClaimsJSON claims0))"

definition forged0 :: TokenString where
  "forged0 = Compact SigningMethodHS256 (ClaimsJSON claims0)
               (HMAC_tag ''HS256'' ''a guess'' (SigningMethodHS256, ClaimsJSON claims0))"

definition unsigned0 :: TokenString where
  "unsigned0 = Compact SigningMethodNone (ClaimsJSON claims0) (SignatureBytes [])"

text \<open>
  The pairs and the session records that rotating in the first world produces: the
  first rotation mints \<open>refresh-B\<close>, a second one \<open>refresh-C\<close>; the access token is
  Ann's, issued at second 1000 to end at second 1900.
\<close>

definition pairB :: TokenPair where
  "pairB = \<lparr>AccessToken = access0, RefreshToken = ''refresh-B'', TokenType = ''Bearer''\<rparr>"

definition pairC :: TokenPair where
  "pairC = \<lparr>AccessToken = access0, RefreshToken = ''refresh-C'', TokenType = ''Bearer''\<rparr>"

definition refreshC :: RefreshToken where
  "refreshC = \<lparr>RefreshToken.ID = ''key-3'', RefreshToken.UserID = ''user-1'',
               RefreshToken.Token = ''refresh-C'',
               RefreshToken.ExpiresAt = 605800 * Second,
               RefreshToken.CreatedAt = 1000 * Second\<rparr>"

section \<open>What the repositories and the token service compute\<close>

text \<open>
  Each repository function in one equation: the driver's outcome for the statement
  first, then the table.
\<close>

lemma errors_Is_LibraryError [simp]: "errors_Is (LibraryError msg) ErrRecordNotFound = False"
  by simp

lemma GetByEmail_eq:
  "GetByEmail w e =
     (case shd (db_faults w) of
        Some msg \<Rightarrow> (Inl (Internal (LibraryError msg)), w\<lparr>db_faults := stl (db_faults w)\<rparr>)
      | None \<Rightarrow>
          (case find (\<lambda>u. User.Email u = e) (users w) of
             None \<Rightarrow> (Inl (NotFound ''User''), w\<lparr>db_faults := stl (db_faults w)\<rparr>)
           | Some u \<Rightarrow> (Inr u, w\<lparr>db_faults := stl (db_faults w)\<rparr>)))"
  by (simp add: GetByEmail_def First_User_def db_statement_def gorm_First_def
           split: option.splits)

lemma GetByID_eq:
  "GetByID w i =
     (case shd (db_faults w) of
        Some msg \<Rightarrow> (Inl (Internal (LibraryError msg)), w\<lparr>db_faults := stl (db_faults w)\<rparr>)
      | None \<Rightarrow>
          (case find (\<lambda>u. User.ID u = i) (users w) of
             None \<Rightarrow> (Inl (NotFound ''User''), w\<lparr>db_faults := stl (db_faults w)\<rparr>)
           | Some u \<Rightarrow> (Inr u, w\<lparr>db_faults := stl (db_faults w)\<rparr>)))"
  by (simp add: GetByID_def First_User_def db_statement_def gorm_First_def
           split: option.splits)

lemma GetByToken_eq:
  "GetByToken w v =
     (case shd (db_faults w) of
        Some msg \<Rightarrow> (Inl (Internal (LibraryError msg)), w\<lparr>db_faults := stl (db_faults w)\<rparr>)
      | None \<Rightarrow>
          (case find (\<lambda>r. Token r = v) (refresh_tokens w) of
             None \<Rightarrow> (Inl (Unauthorized ''refresh token not found or already used''),
                       w\<lparr>db_faults := stl (db_faults w)\<rparr>)
           | Some r \<Rightarrow> (Inr r, w\<lparr>db_faults := stl (db_faults w)\<rparr>)))"
  by (simp add: GetByToken_def First_RefreshToken_def db_statement_def gorm_First_def
           split: option.splits)

lemma DeleteByToken_eq:
  "DeleteByToken w v =
     (case shd (db_faults w) of
        Some msg \<Rightarrow> (Some (LibraryError msg), w\<lparr>db_faults := stl (db_faults w)\<rparr>)
      | None \<Rightarrow>
          (None, w\<lparr>db_faults := stl (db_faults w),
                   refresh_tokens := filter (\<lambda>r. Token r \<noteq> v) (refresh_tokens w)\<rparr>))"
  by (simp add: DeleteByToken_def Delete_RefreshToken_def db_statement_def
           split: option.splits)

lemma Save_eq:
  "Save w \<lparr>RefreshToken.ID = uuid_Nil, RefreshToken.UserID = u, RefreshToken.Token = t,
           RefreshToken.ExpiresAt = e, RefreshToken.CreatedAt = time_zero\<rparr> =
     (case shd (db_faults w) of
        Some msg \<Rightarrow> (Some (Internal (LibraryError msg)), w\<lparr>db_faults := stl (db_faults w)\<rparr>)
      | None \<Rightarrow>
          if list_ex (\<lambda>r. RefreshToken.ID r = shd (db_uuids w) \<or> Token r = t) (refresh_tokens w)
          then (Some (Internal duplicate_key),
                w\<lparr>db_faults := stl (db_faults w), db_uuids := stl (db_uuids w)\<rparr>)
          else (None,
                w\<lparr>db_faults := stl (db_faults w), db_uuids := stl (db_uuids w),
                  refresh_tokens := refresh_tokens w @
                    [\<lparr>RefreshToken.ID = shd (db_uuids w), RefreshToken.UserID = u,
                      RefreshToken.Token = t, RefreshToken.ExpiresAt = e,
                      RefreshToken.CreatedAt = time_Now w\<rparr>]\<rparr>))"
  by (simp add: Save_def Create_RefreshToken_def db_statement_def Let_def time_Now_def
        split: option.splits)

lemma Create_eq:
  "Create w \<lparr>User.ID = uuid_Nil, User.Name = n, User.Email = e, User.Password = h,
             User.Bio = b, User.AvatarID = a, User.CreatedAt = time_zero,
             User.UpdatedAt = time_zero\<rparr> =
     (case shd (db_faults w) of
        Some msg \<Rightarrow> (Inl (Internal (LibraryError msg)), w\<lparr>db_faults := stl (db_faults w)\<rparr>)
      | None \<Rightarrow>
          if list_ex (\<lambda>u. User.ID u = shd (db_uuids w) \<or> User.Email u = e) (users w)
          then (Inl (Internal duplicate_key),
                w\<lparr>db_faults := stl (db_faults w), db_uuids := stl (db_uuids w)\<rparr>)
          else (Inr \<lparr>User.ID = shd (db_uuids w), User.Name = n, User.Email = e,
                     User.Password = h, User.Bio = b, User.AvatarID = a,
                     User.CreatedAt = time_Now w, User.UpdatedAt = time_Now w\<rparr>,
                w\<lparr>db_faults := stl (db_faults w), db_uuids := stl (db_uuids w),
                  users := users w @
                    [\<lparr>User.ID = shd (db_uuids w), User.Name = n, User.Email = e,
                      User.Password = h, User.Bio = b, User.AvatarID = a,
                      User.CreatedAt = time_Now w, User.UpdatedAt = time_Now w\<rparr>]\<rparr>))"
  by (simp add: Create_def Create_User_def db_statement_def Let_def time_Now_def
        split: option.splits)

lemma GenerateAccessToken_eq:
  "GenerateAccessToken s w uid email =
     Inr (Compact SigningMethodHS256
            (ClaimsJSON \<lparr>UserID = uid, Email = email,
               RegisteredClaims = \<lparr>Subject = UUID_String uid,
                 ExpiresAt =
                   Some (NewNumericDate (Add (time_Now w) (AccessExpiresDuration (cfg s)))),
                 NotBefore = None, IssuedAt = Some (NewNumericDate (time_Now w))\<rparr>\<rparr>)
            (HMAC_tag ''HS256'' (AccessSecret (cfg s))
               (SigningMethodHS256,
                ClaimsJSON \<lparr>UserID = uid, Email = email,
                  RegisteredClaims = \<lparr>Subject = UUID_String uid,
                    ExpiresAt =
                      Some (NewNumericDate (Add (time_Now w) (AccessExpiresDuration (cfg s)))),
                    NotBefore = None, IssuedAt = Some (NewNumericDate (time_Now w))\<rparr>\<rparr>)))"
  by (simp add: GenerateAccessToken_def NewWithClaims_def SignedString_def Sign_def
        SigningMethodHS256_def Let_def)

lemma GenerateRefreshToken_eq:
  "GenerateRefreshToken s w =
     (case shd (rand_uuids w) of
        None \<Rightarrow> (Inl (LibraryError ''crypto/rand: read failed''),
                 w\<lparr>rand_uuids := stl (rand_uuids w)\<rparr>)
      | Some t \<Rightarrow> (Inr t, w\<lparr>rand_uuids := stl (rand_uuids w)\<rparr>))"
  by (simp add: GenerateRefreshToken_def uuid_NewRandom_def UUID_String_def
        split: option.splits)

lemma Internal_neq_Conflict [simp]: "Internal e \<noteq> Conflict m"
  by (simp add: Internal_def Conflict_def New_def NewWithCause_def)

lemma issueTokenPair_Inr:
  assumes "issueTokenPair uc w user = (Inr pair, w')"
  shows "\<exists>row. refresh_tokens w' = refresh_tokens w @ [row]
           \<and> Token row = RefreshToken pair
           \<and> RefreshToken.UserID row = User.ID user"
    and "users w' = users w"
  using assms
  by (auto simp: issueTokenPair_def GenerateAccessToken_eq GenerateRefreshToken_eq Save_eq
        Let_def split: option.splits if_splits)

lemma issueTokenPair_Inl:
  assumes "issueTokenPair uc w user = (Inl e, w')"
  shows "refresh_tokens w' = refresh_tokens w" and "users w' = users w"
  using assms
  by (auto simp: issueTokenPair_def GenerateAccessToken_eq GenerateRefreshToken_eq Save_eq
        Let_def split: option.splits if_splits)

lemma Refresh_Inr:
  assumes "Refresh uc w v = (Inr pair, w')"
  shows "\<exists>storedToken user w3.
           find (\<lambda>r. Token r = v) (refresh_tokens w) = Some storedToken
         \<and> \<not> RefreshToken.ExpiresAt storedToken < now w
         \<and> find (\<lambda>u. User.ID u = RefreshToken.UserID storedToken) (users w) = Some user
         \<and> shd (db_faults w) = None \<and> shd (stl (db_faults w)) = None
         \<and> refresh_tokens w3 =
             (if shd (stl (stl (db_faults w))) = None
              then filter (\<lambda>r. Token r \<noteq> v) (refresh_tokens w) else refresh_tokens w)
         \<and> users w3 = users w
         \<and> issueTokenPair uc w3 user = (Inr pair, w')"
proof -
  from assms obtain storedToken where
    f1: "shd (db_faults w) = None"
    and st: "find (\<lambda>r. Token r = v) (refresh_tokens w) = Some storedToken"
    and g: "GetByToken w v = (Inr storedToken, w\<lparr>db_faults := stl (db_faults w)\<rparr>)"
    by (auto simp: Refresh_def GetByToken_eq split: option.splits)
  let ?w1 = "w\<lparr>db_faults := stl (db_faults w)\<rparr>"
  from assms g have live: "\<not> IsExpired ?w1 storedToken"
    by (auto simp: Refresh_def split: prod.splits)
  with assms g obtain user where
    f2: "shd (stl (db_faults w)) = None"
    and u: "find (\<lambda>u. User.ID u = RefreshToken.UserID storedToken) (users w) = Some user"
    and o: "GetByID ?w1 (RefreshToken.UserID storedToken)
              = (Inr user, ?w1\<lparr>db_faults := stl (db_faults ?w1)\<rparr>)"
    by (auto simp: Refresh_def GetByID_eq split: option.splits)
  let ?w2 = "?w1\<lparr>db_faults := stl (db_faults ?w1)\<rparr>"
  obtain r w3 where d: "DeleteByToken ?w2 v = (r, w3)"
    by (cases "DeleteByToken ?w2 v")
  with assms g live o have i: "issueTokenPair uc w3 user = (Inr pair, w')"
    by (simp add: Refresh_def)
  from d have t3: "refresh_tokens w3 =
             (if shd (stl (stl (db_faults w))) = None
              then filter (\<lambda>r. Token r \<noteq> v) (refresh_tokens w) else refresh_tokens w)"
    and u3: "users w3 = users w"
    by (auto simp: DeleteByToken_eq split: option.splits)
  from live have "\<not> RefreshToken.ExpiresAt storedToken < now w"
    by (simp add: IsExpired_def After_def time_Now_def)
  with st u f1 f2 t3 u3 i show ?thesis by blast
qed

lemma Register_Inr:
  assumes "Register bc uc w input = (Inr pub, w')"
  shows "UserPublic.Email pub = ToLower (RegisterInput.Email input)"
    and "\<exists>row. users w' = users w @ [row]
           \<and> User.Email row = ToLower (RegisterInput.Email input)
           \<and> User.Name row = RegisterInput.Name input"
  using assms
  by (auto simp: Register_def GetByEmail_eq Create_eq ToPublic_def Let_def
        split: option.splits sum.splits if_splits)

lemma Validate_expired:
  "(gojwt_ErrTokenExpired \<in> set (Validate t claims)) =
     (case RegisteredClaims.ExpiresAt (RegisteredClaims claims) of
        Some exp \<Rightarrow> \<not> t < exp | None \<Rightarrow> False)"
  by (auto simp: Validate_def split: option.splits)

lemma ValidateAccessToken_expired_iff:
  "(ValidateAccessToken s w tokenStr = Inl TokenExpired) =
     (correctly_signed (AccessSecret (cfg s)) tokenStr \<and> past_expiry (time_Now w) tokenStr)"
proof (cases tokenStr)
  case (NotCompact x)
  then show ?thesis
    by (simp add: ValidateAccessToken_def ParseWithClaims_def correctly_signed_def
          past_expiry_def TokenExpired_def Unauthorized_def New_def)
next
  case (Compact alg_method segment sig)
  show ?thesis
  proof (cases segment)
    case (OtherJSON x)
    with Compact show ?thesis
      by (simp add: ValidateAccessToken_def ParseWithClaims_def correctly_signed_def
            past_expiry_def TokenExpired_def Unauthorized_def New_def
            split: SigningMethod.splits)
  next
    case (ClaimsJSON claims)
    show ?thesis
    proof (cases alg_method)
      case (SigningMethodHMAC alg)
      with Compact ClaimsJSON Validate_expired [of "time_Now w" claims] show ?thesis
        by (cases "Validate (time_Now w) claims")
           (auto simp: ValidateAccessToken_def ParseWithClaims_def correctly_signed_def
              past_expiry_def TokenExpired_def Unauthorized_def New_def keyFunc_def Verify_def
              Let_def split: option.splits)
    qed (use Compact ClaimsJSON in \<open>simp_all add: ValidateAccessToken_def ParseWithClaims_def
           correctly_signed_def past_expiry_def TokenExpired_def Unauthorized_def New_def
           keyFunc_def Let_def\<close>)
  qed
qed

lemma ValidateAccessToken_other_errors:
  assumes "ValidateAccessToken s w tokenStr = Inl err" and "err \<noteq> TokenExpired"
  shows "err = Unauthorized ''invalid or malformed token''"
  using assms
  by (auto simp: ValidateAccessToken_def ParseWithClaims_def Let_def
        split: sum.splits if_splits TokenString.splits payload.splits list.splits)

lemma Save_tokens:
  "Save w rec = (r, w') \<Longrightarrow>
     (r \<noteq> None \<longrightarrow> refresh_tokens w' = refresh_tokens w) \<and>
     (r = None \<longrightarrow> (\<exists>row. refresh_tokens w' = refresh_tokens w @ [row]
                        \<and> Token row = Token rec \<and> RefreshToken.UserID row = RefreshToken.UserID rec))"
  by (auto simp: Save_def Create_RefreshToken_def db_statement_def Let_def
        split: option.splits if_splits)

lemmas date_defs = NewNumericDate_def Truncate_def TimePrecision_def UUID_String_def

lemma IsExpired_iff: "IsExpired w r = (RefreshToken.ExpiresAt r < time_Now w)"
  by (simp add: IsExpired_def After_def)

lemma issueTokenPair_not_Unauthorized:
  "fst (issueTokenPair uc w user) \<noteq> Inl (Unauthorized msg)"
  by (auto simp: issueTokenPair_def GenerateAccessToken_eq GenerateRefreshToken_eq
        Save_eq Let_def Internal_def Unauthorized_def New_def NewWithCause_def
        split: option.splits)

lemma GetByID_not_Unauthorized:
  "GetByID w uid = (Inl err, w') \<Longrightarrow> err \<noteq> Unauthorized msg"
  by (auto simp: GetByID_eq NotFound_def Internal_def Unauthorized_def New_def NewWithCause_def
        split: option.splits)

lemma Refresh_live:
  assumes up: "shd (db_faults w) = None"
    and found: "find (\<lambda>r. Token r = v) (refresh_tokens w) = Some r"
    and live: "\<not> RefreshToken.ExpiresAt r < time_Now w"
  shows "fst (Refresh uc w v) \<noteq> Inl (Unauthorized msg)"
proof -
  let ?w1 = "w\<lparr>db_faults := stl (db_faults w)\<rparr>"
  from up found have get: "GetByToken w v = (Inr r, ?w1)"
    by (simp add: GetByToken_eq)
  from live have alive: "\<not> IsExpired ?w1 r"
    by (simp add: IsExpired_iff time_Now_def)
  obtain res w2 where o: "GetByID ?w1 (RefreshToken.UserID r) = (res, w2)"
    by (cases "GetByID ?w1 (RefreshToken.UserID r)")
  show ?thesis
  proof (cases res)
    case (Inl err)
    with o GetByID_not_Unauthorized [of ?w1 "RefreshToken.UserID r" err w2 msg]
    show ?thesis using get alive by (simp add: Refresh_def)
  next
    case (Inr user)
    obtain d w3 where del: "DeleteByToken w2 v = (d, w3)"
      by (cases "DeleteByToken w2 v")
    with o Inr get alive issueTokenPair_not_Unauthorized [of uc w3 user msg]
    show ?thesis by (simp add: Refresh_def)
  qed
qed

lemma ValidateAccessToken_rejects_unsigned:
  assumes "\<not> correctly_signed (AccessSecret (cfg s)) tokenStr"
  shows "ValidateAccessToken s w tokenStr = Inl (Unauthorized ''invalid or malformed token'')"
proof (cases tokenStr)
  case (NotCompact x)
  then show ?thesis
    by (simp add: ValidateAccessToken_def ParseWithClaims_def)
next
  case (Compact alg_method segment sig)
  show ?thesis
  proof (cases segment)
    case (OtherJSON x)
    with Compact show ?thesis
      by (simp add: ValidateAccessToken_def ParseWithClaims_def)
  next
    case (ClaimsJSON claims)
    with Compact assms show ?thesis
      by (cases alg_method)
         (simp_all add: ValidateAccessToken_def ParseWithClaims_def correctly_signed_def
            keyFunc_def Verify_def Let_def)
  qed
qed

lemma NewNumericDate_le: "NewNumericDate t \<le> t"
  by (simp add: date_defs Second_def)

lemma NewNumericDate_after:
  assumes "Second \<le> d"
  shows "t < NewNumericDate (Add t d)"
proof -
  have "(t + d) mod 1000000000 < 1000000000"
    by simp
  with assms show ?thesis
    by (simp add: date_defs Add_def Second_def)
qed

lemma roundtrip_valid:
  assumes "time_Now w' < NewNumericDate (Add (time_Now w) (AccessExpiresDuration (cfg s)))"
  shows "\<exists>tokenStr claims.
           GenerateAccessToken s w userID email = Inr tokenStr
         \<and> ValidateAccessToken s w' tokenStr = Inr claims
         \<and> Claims.UserID claims = userID \<and> Claims.Email claims = email"
  using assms
  by (simp add: GenerateAccessToken_eq ValidateAccessToken_def ParseWithClaims_def
        keyFunc_def Verify_def Validate_def SigningMethodHS256_def Let_def)

lemma roundtrip_expired:
  assumes "\<not> time_Now w' < NewNumericDate (Add (time_Now w) (AccessExpiresDuration (cfg s)))"
  shows "\<exists>tokenStr.
           GenerateAccessToken s w userID email = Inr tokenStr
         \<and> ValidateAccessToken s w' tokenStr = Inl TokenExpired"
  using assms
  by (simp add: GenerateAccessToken_eq ValidateAccessToken_def ParseWithClaims_def
        keyFunc_def Verify_def Validate_def SigningMethodHS256_def Let_def)

section \<open>Evaluating the concrete world\<close>

lemmas world_defs = world0_def world_first_fails_def world_third_fails_def world_edge_def
  world_late_def world_late_first_fails_def world_late_second_fails_def
  world_third_fourth_fail_def world_half_def world_almost_def
  ann_def refreshA_def uc0_def cfg0_def bc0_def Second_def Millisecond_def

lemma lower_ann: "ToLower ''Ann@X.com'' = ''ann@x.com''"
  by code_simp

lemma lower_Bob: "ToLower ''Bob@X.com'' = ''bob@x.com''"
  by code_simp

lemma lower_bob: "ToLower ''bob@x.com'' = ''bob@x.com''"
  by code_simp

lemmas run_defs = Refresh_def GetByToken_eq GetByID_eq DeleteByToken_eq issueTokenPair_def
  GenerateAccessToken_eq GenerateRefreshToken_eq Save_eq IsExpired_def After_def Add_def
  time_Now_def

lemmas token_defs = access0_def forged0_def unsigned0_def claims0_def SigningMethodHS256_def

section \<open>Login\<close>

text \<open>
  Claim C2. Login does not tell an unknown email from a wrong password: in any world
  where no account has the (lowercased) email of the first request, and any world
  where the second request names an account \<open>u\<close> but bcrypt rejects the
  password against its hash, both calls fail, and with the very same error value:
  kind \<^verbatim>\<open>UNAUTHORIZED\<close>, status 401, message "Invalid email or password". This holds
  whatever the database driver does.
\<close>

theorem Login_enumeration_resistant:
  assumes none: "\<forall>u \<in> set (users w1). User.Email u \<noteq> ToLower (LoginInput.Email in1)"
    and some: "find (\<lambda>u. User.Email u = ToLower (LoginInput.Email in2)) (users w2) = Some u"
    and wrong: "CompareHashAndPassword bc (User.Password u) (LoginInput.Password in2) \<noteq> None"
  shows "fst (Login bc uc w1 in1) = Inl (Unauthorized ''Invalid email or password'')
       \<and> fst (Login bc uc w2 in2) = Inl (Unauthorized ''Invalid email or password'')
       \<and> Code (Unauthorized ''Invalid email or password'') = ErrUnauthorized
       \<and> HTTPStatus (Unauthorized ''Invalid email or password'') = StatusUnauthorized
       \<and> Message (Unauthorized ''Invalid email or password'') = ''Invalid email or password''"
proof (intro conjI)
  from none have "find (\<lambda>u. User.Email u = ToLower (LoginInput.Email in1)) (users w1) = None"
    by (simp add: find_None_iff)
  then show "fst (Login bc uc w1 in1) = Inl (Unauthorized ''Invalid email or password'')"
    by (simp add: Login_def GetByEmail_eq split: option.splits)
next
  from some wrong
  show "fst (Login bc uc w2 in2) = Inl (Unauthorized ''Invalid email or password'')"
    by (auto simp: Login_def GetByEmail_eq split: option.splits)
qed (simp_all add: Unauthorized_def New_def)

text \<open>
  In the first world nobody has Bob's email, and Ann's account is found and bcrypt
  refuses the password sent for it.
\<close>

theorem Login_enumeration_resistant_witness:
  "fst (Login bc0 uc0 world0 login_unknown) = Inl (Unauthorized ''Invalid email or password'')
   \<and> fst (Login bc0 uc0 world0 login_wrong) = Inl (Unauthorized ''Invalid email or password'')"
proof -
  have a: "\<forall>u \<in> set (users world0). User.Email u \<noteq> ToLower (LoginInput.Email login_unknown)"
    by (simp add: world_defs login_unknown_def lower_bob)
  have b: "find (\<lambda>u. User.Email u = ToLower (LoginInput.Email login_wrong))
             (users world0) = Some ann"
    by (simp add: world_defs login_wrong_def lower_ann)
  have c: "CompareHashAndPassword bc0 (User.Password ann) (LoginInput.Password login_wrong)
             \<noteq> None"
    by (simp add: world_defs login_wrong_def)
  from Login_enumeration_resistant [OF a b c, of uc0] show ?thesis by simp
qed

section \<open>Issuing a token pair\<close>

text \<open>
  Claim C8. No partial success in \<^verbatim>\<open>issueTokenPair\<close>: when the refresh identifier has
  been minted and saving the record the helper builds for it fails, the helper returns
  that error and no token pair, and the ledger holds no new record.
\<close>

theorem issueTokenPair_no_partial_success:
  assumes gen: "GenerateRefreshToken (jwtService uc) w = (Inr refreshTokenStr, w1)"
    and save: "fst (Save w1 \<lparr>RefreshToken.ID = uuid_Nil,
                      RefreshToken.UserID = User.ID user,
                      RefreshToken.Token = refreshTokenStr,
                      RefreshToken.ExpiresAt =
                        Add (time_Now w1) (RefreshExpiresDuration (jwtCfg uc)),
                      RefreshToken.CreatedAt = time_zero\<rparr>) = Some err"
  shows "fst (issueTokenPair uc w user) = Inl err
       \<and> refresh_tokens (snd (issueTokenPair uc w user)) = refresh_tokens w"
proof -
  obtain r w2 where s: "Save w1 \<lparr>RefreshToken.ID = uuid_Nil,
                      RefreshToken.UserID = User.ID user,
                      RefreshToken.Token = refreshTokenStr,
                      RefreshToken.ExpiresAt =
                        Add (time_Now w1) (RefreshExpiresDuration (jwtCfg uc)),
                      RefreshToken.CreatedAt = time_zero\<rparr> = (r, w2)"
    by (cases "Save w1 \<lparr>RefreshToken.ID = uuid_Nil,
                      RefreshToken.UserID = User.ID user,
                      RefreshToken.Token = refreshTokenStr,
                      RefreshToken.ExpiresAt =
                        Add (time_Now w1) (RefreshExpiresDuration (jwtCfg uc)),
                      RefreshToken.CreatedAt = time_zero\<rparr>") 
  with save have r: "r = Some err" by simp
  from gen have w1: "refresh_tokens w1 = refresh_tokens w"
    by (auto simp: GenerateRefreshToken_eq split: option.splits)
  from Save_tokens [OF s] r have "refresh_tokens w2 = refresh_tokens w1" by simp
  with w1 gen s r show ?thesis
    by (simp add: issueTokenPair_def GenerateAccessToken_eq)
qed

theorem issueTokenPair_no_partial_success_witness:
  "fst (issueTokenPair uc0 world_first_fails ann)
     = Inl (Internal (LibraryError ''connection reset by peer''))
   \<and> refresh_tokens (snd (issueTokenPair uc0 world_first_fails ann)) = [refreshA]"
proof -
  have gen: "GenerateRefreshToken (jwtService uc0) world_first_fails
     = (Inr ''refresh-B'', world_first_fails\<lparr>rand_uuids := Some ''refresh-C'' ## sconst None\<rparr>)"
    by (simp add: GenerateRefreshToken_eq world_defs)
  have save: "fst (Save (world_first_fails\<lparr>rand_uuids := Some ''refresh-C'' ## sconst None\<rparr>)
                    \<lparr>RefreshToken.ID = uuid_Nil,
                      RefreshToken.UserID = User.ID ann,
                      RefreshToken.Token = ''refresh-B'',
                      RefreshToken.ExpiresAt =
                        Add (time_Now (world_first_fails\<lparr>rand_uuids := Some ''refresh-C'' ## sconst None\<rparr>)) (RefreshExpiresDuration (jwtCfg uc0)),
                      RefreshToken.CreatedAt = time_zero\<rparr>)
               = Some (Internal (LibraryError ''connection reset by peer''))"
    by (simp add: Save_eq world_defs)
  have t: "refresh_tokens world_first_fails = [refreshA]"
    by (simp add: world_defs)
  from issueTokenPair_no_partial_success [OF gen save] t show ?thesis by simp
qed

section \<open>Refresh\<close>

text \<open>
  Claim C9, amended. Refresh throws away the error of deleting the old record: when
  the record is found and not expired, its owner is found, and the delete fails,
  Refresh goes on to issue a pair exactly as \<^verbatim>\<open>issueTokenPair\<close> does on the world the
  failed delete left, with the old record still in the ledger. Whenever the
  randomness source then yields an identifier and the save of the new record is
  executed with no duplicate in its way, Refresh returns the pair made of the access
  token generated for the owner, that identifier and the type "Bearer", and the
  ledger is the old one, old record included, followed by the new record. Whenever
  Refresh returns a pair at all, the old record is still there next to the new one.
\<close>

theorem Refresh_discards_delete_error:
  assumes get: "GetByToken w v = (Inr storedToken, w1)"
    and live: "\<not> IsExpired w1 storedToken"
    and owner: "GetByID w1 (RefreshToken.UserID storedToken) = (Inr user, w2)"
    and del: "DeleteByToken w2 v = (Some err, w3)"
  shows "Refresh uc w v = issueTokenPair uc w3 user
       \<and> refresh_tokens w3 = refresh_tokens w
       \<and> storedToken \<in> set (refresh_tokens w)
       \<and> (\<forall>t. shd (rand_uuids w3) = Some t \<and> shd (db_faults w3) = None
              \<and> \<not> list_ex (\<lambda>r. RefreshToken.ID r = shd (db_uuids w3) \<or> Token r = t)
                     (refresh_tokens w3) \<longrightarrow>
            (\<exists>accessToken.
                GenerateAccessToken (jwtService uc) w3 (User.ID user) (User.Email user)
                  = Inr accessToken
              \<and> fst (Refresh uc w v)
                  = Inr \<lparr>AccessToken = accessToken, RefreshToken = t, TokenType = ''Bearer''\<rparr>)
            \<and> refresh_tokens (snd (Refresh uc w v))
                = refresh_tokens w @
                    [\<lparr>RefreshToken.ID = shd (db_uuids w3),
                      RefreshToken.UserID = User.ID user,
                      RefreshToken.Token = t,
                      RefreshToken.ExpiresAt =
                        Add (time_Now w3) (RefreshExpiresDuration (jwtCfg uc)),
                      RefreshToken.CreatedAt = time_Now w3\<rparr>])
       \<and> (\<forall>pair w'. Refresh uc w v = (Inr pair, w') \<longrightarrow>
            storedToken \<in> set (refresh_tokens w')
            \<and> list_ex (\<lambda>r. Token r = RefreshToken pair) (refresh_tokens w')
            \<and> GenerateAccessToken (jwtService uc) w3 (User.ID user) (User.Email user)
                = Inr (AccessToken pair)
            \<and> TokenType pair = ''Bearer'')"
proof -
  from get have w1: "refresh_tokens w1 = refresh_tokens w"
    and found: "storedToken \<in> set (refresh_tokens w)"
    by (auto simp: GetByToken_eq find_Some_iff in_set_conv_nth split: option.splits)
  from owner have w2: "refresh_tokens w2 = refresh_tokens w1"
    by (auto simp: GetByID_eq split: option.splits)
  from del have w3: "refresh_tokens w3 = refresh_tokens w2"
    by (auto simp: DeleteByToken_eq split: option.splits)
  have run: "Refresh uc w v = issueTokenPair uc w3 user"
    using get live owner del by (simp add: Refresh_def)
  have same: "refresh_tokens w3 = refresh_tokens w"
    using w1 w2 w3 by simp
  have minted: "(\<exists>accessToken.
                GenerateAccessToken (jwtService uc) w3 (User.ID user) (User.Email user)
                  = Inr accessToken
              \<and> fst (Refresh uc w v)
                  = Inr \<lparr>AccessToken = accessToken, RefreshToken = t, TokenType = ''Bearer''\<rparr>)
            \<and> refresh_tokens (snd (Refresh uc w v))
                = refresh_tokens w @
                    [\<lparr>RefreshToken.ID = shd (db_uuids w3),
                      RefreshToken.UserID = User.ID user,
                      RefreshToken.Token = t,
                      RefreshToken.ExpiresAt =
                        Add (time_Now w3) (RefreshExpiresDuration (jwtCfg uc)),
                      RefreshToken.CreatedAt = time_Now w3\<rparr>]"
    if "shd (rand_uuids w3) = Some t" "shd (db_faults w3) = None"
      "\<not> list_ex (\<lambda>r. RefreshToken.ID r = shd (db_uuids w3) \<or> Token r = t)
           (refresh_tokens w3)" for t
    using that same
    by (simp add: run issueTokenPair_def GenerateAccessToken_eq GenerateRefreshToken_eq
          Save_eq time_Now_def)
  have issued: "storedToken \<in> set (refresh_tokens w')
            \<and> list_ex (\<lambda>r. Token r = RefreshToken pair) (refresh_tokens w')
            \<and> GenerateAccessToken (jwtService uc) w3 (User.ID user) (User.Email user)
                = Inr (AccessToken pair)
            \<and> TokenType pair = ''Bearer''"
    if ok: "Refresh uc w v = (Inr pair, w')" for pair w'
    using ok found same unfolding run
    by (auto simp: issueTokenPair_def GenerateAccessToken_eq GenerateRefreshToken_eq Save_eq
          Let_def list_ex_iff split: option.splits if_splits)
  from run same found minted issued show ?thesis by blast
qed

theorem Refresh_discards_delete_error_witness:
  "fst (Refresh uc0 world_third_fails ''refresh-A'') = Inr pairB
   \<and> refresh_tokens (snd (Refresh uc0 world_third_fails ''refresh-A''))
       = [refreshA, refreshB]"
proof -
  let ?w1 = "world_third_fails\<lparr>db_faults := None ## Some ''connection reset by peer'' ## sconst None\<rparr>"
  let ?w2 = "world_third_fails\<lparr>db_faults := Some ''connection reset by peer'' ## sconst None\<rparr>"
  let ?w3 = "world_third_fails\<lparr>db_faults := sconst None\<rparr>"
  have get: "GetByToken world_third_fails ''refresh-A'' = (Inr refreshA, ?w1)"
    by (simp add: GetByToken_eq world_defs)
  have live: "\<not> IsExpired ?w1 refreshA"
    by (simp add: IsExpired_def After_def time_Now_def world_defs)
  have owner: "GetByID ?w1 (RefreshToken.UserID refreshA) = (Inr ann, ?w2)"
    by (simp add: GetByID_eq world_defs)
  have del: "DeleteByToken ?w2 ''refresh-A''
               = (Some (LibraryError ''connection reset by peer''), ?w3)"
    by (simp add: DeleteByToken_eq world_defs)
  have rand: "shd (rand_uuids ?w3) = Some ''refresh-B''" "shd (db_faults ?w3) = None"
    "shd (db_uuids ?w3) = ''key-2''"
    by (simp_all add: world_defs)
  have free: "\<not> list_ex (\<lambda>r. RefreshToken.ID r = shd (db_uuids ?w3) \<or> Token r = ''refresh-B'')
                 (refresh_tokens ?w3)"
    by (simp add: world_defs)
  have acc: "GenerateAccessToken (jwtService uc0) ?w3 (User.ID ann) (User.Email ann)
      = Inr access0"
    by (simp add: GenerateAccessToken_eq date_defs Add_def time_Now_def token_defs world_defs)
  have led: "refresh_tokens world_third_fails = [refreshA]"
    "Add (time_Now ?w3) (RefreshExpiresDuration (jwtCfg uc0)) = 605800 * Second"
    "time_Now ?w3 = 1000 * Second" "User.ID ann = ''user-1''"
    by (simp_all add: world_defs Add_def time_Now_def)
  from Refresh_discards_delete_error [OF get live owner del, of uc0] rand(1,2) free
  have "(\<exists>accessToken.
                GenerateAccessToken (jwtService uc0) ?w3 (User.ID ann) (User.Email ann)
                  = Inr accessToken
              \<and> fst (Refresh uc0 world_third_fails ''refresh-A'')
                  = Inr \<lparr>AccessToken = accessToken, RefreshToken = ''refresh-B'',
                         TokenType = ''Bearer''\<rparr>)
            \<and> refresh_tokens (snd (Refresh uc0 world_third_fails ''refresh-A''))
                = refresh_tokens world_third_fails @
                    [\<lparr>RefreshToken.ID = shd (db_uuids ?w3),
                      RefreshToken.UserID = User.ID ann,
                      RefreshToken.Token = ''refresh-B'',
                      RefreshToken.ExpiresAt =
                        Add (time_Now ?w3) (RefreshExpiresDuration (jwtCfg uc0)),
                      RefreshToken.CreatedAt = time_Now ?w3\<rparr>]"
    by blast
  with acc led rand(3) show ?thesis
    by (auto simp: pairB_def refreshB_def)
qed

text \<open>
  The claim as it was written, a new record and a pair in every execution where the
  delete fails, does not hold when the save fails as well: the record is found and
  live, the delete fails, and Refresh returns the error of the save and stores
  nothing.
\<close>

theorem Refresh_discards_delete_error_counterexample:
  "fst (GetByToken world_third_fourth_fail ''refresh-A'') = Inr refreshA
   \<and> \<not> IsExpired world_third_fourth_fail refreshA
   \<and> fst (DeleteByToken
            (snd (GetByID (snd (GetByToken world_third_fourth_fail ''refresh-A'')) ''user-1''))
            ''refresh-A'')
       = Some (LibraryError ''connection reset by peer'')
   \<and> fst (Refresh uc0 world_third_fourth_fail ''refresh-A'')
       = Inl (Internal (LibraryError ''connection reset by peer''))
   \<and> refresh_tokens (snd (Refresh uc0 world_third_fourth_fail ''refresh-A'')) = [refreshA]"
  by (simp add: run_defs date_defs world_defs)

text \<open>
  When the delete statement of the call (the third statement Refresh sends) is
  executed and the identifier minted differs from the old value, a Refresh that
  returns a pair leaves no record with the old value, and a later Refresh of the old
  value fails.
\<close>

lemma Refresh_rotation_when_delete_executed:
  assumes ok: "Refresh uc w v = (Inr pair, w')"
    and deleted: "shd (stl (stl (db_faults w))) = None"
    and fresh: "RefreshToken pair \<noteq> v"
  shows "\<not> list_ex (\<lambda>r. Token r = v) (refresh_tokens w')
       \<and> list_ex (\<lambda>r. Token r = RefreshToken pair) (refresh_tokens w')
       \<and> (\<forall>w2. refresh_tokens w2 = refresh_tokens w' \<longrightarrow>
             isl (fst (Refresh uc w2 v))
             \<and> (shd (db_faults w2) = None \<longrightarrow>
                  fst (Refresh uc w2 v) =
                    Inl (Unauthorized ''refresh token not found or already used'')))"
proof -
  from Refresh_Inr [OF ok] deleted obtain user w3 where
    t3: "refresh_tokens w3 = filter (\<lambda>r. Token r \<noteq> v) (refresh_tokens w)"
    and i: "issueTokenPair uc w3 user = (Inr pair, w')"
    by auto
  from issueTokenPair_Inr(1) [OF i] obtain row where
    t': "refresh_tokens w' = refresh_tokens w3 @ [row]" and row: "Token row = RefreshToken pair"
    by blast
  have gone: "\<not> list_ex (\<lambda>r. Token r = v) (refresh_tokens w')"
    using t' t3 row fresh by (auto simp: list_ex_iff)
  have new: "list_ex (\<lambda>r. Token r = RefreshToken pair) (refresh_tokens w')"
    using t' row by (auto simp: list_ex_iff)
  have again: "isl (fst (Refresh uc w2 v))
             \<and> (shd (db_faults w2) = None \<longrightarrow>
                  fst (Refresh uc w2 v) =
                    Inl (Unauthorized ''refresh token not found or already used''))"
    if same: "refresh_tokens w2 = refresh_tokens w'" for w2
  proof -
    from gone same have "find (\<lambda>r. Token r = v) (refresh_tokens w2) = None"
      by (simp add: find_None_iff list_ex_iff)
    then show ?thesis
      by (simp add: Refresh_def GetByToken_eq split: option.splits)
  qed
  from gone new again show ?thesis by blast
qed

text \<open>
  Claim C1. Rotation is to be single-use: after a Refresh of a value that returns a
  pair, the old record is gone and a later Refresh of the same value fails. The code
  does not keep this when its delete fails, because it discards the error of the
  delete: in the world whose third statement fails, Refresh of Ann's value returns
  the pair with \<open>refresh-B\<close>, her old record is still in the ledger next to the new
  one, and a second Refresh of the old value returns a pair again, with \<open>refresh-C\<close>.
\<close>

theorem Refresh_replay_after_failed_delete:
  "fst (Refresh uc0 world_third_fails ''refresh-A'') = Inr pairB
   \<and> refresh_tokens (snd (Refresh uc0 world_third_fails ''refresh-A'')) = [refreshA, refreshB]
   \<and> fst (Refresh uc0 (snd (Refresh uc0 world_third_fails ''refresh-A'')) ''refresh-A'')
       = Inr pairC
   \<and> refresh_tokens (snd (Refresh uc0 (snd (Refresh uc0 world_third_fails ''refresh-A''))
                             ''refresh-A''))
       = [refreshB, refreshC]"
  by (simp add: run_defs date_defs world_defs token_defs pairB_def pairC_def refreshB_def
        refreshC_def)

text \<open>
  Claim C3, amended. With the lookup executed, Refresh treats a value as valid (it
  answers neither "refresh token not found or already used" nor "Refresh token has
  expired, please login again") exactly when a record with that value exists and the
  current time is not after its expiry: at the expiry instant itself the record is
  still valid. A missing record gives the first answer and changes nothing. A record
  whose expiry is strictly in the past gives the second answer; it is removed if the
  clean-up delete is executed, and left as it was if that delete fails.
\<close>

theorem Refresh_expiry:
  assumes up: "shd (db_faults w) = None"
  shows "((fst (Refresh uc w v)
            \<noteq> Inl (Unauthorized ''refresh token not found or already used'')
          \<and> fst (Refresh uc w v)
            \<noteq> Inl (Unauthorized ''Refresh token has expired, please login again''))
         = (\<exists>r. find (\<lambda>r. Token r = v) (refresh_tokens w) = Some r
                \<and> time_Now w \<le> RefreshToken.ExpiresAt r))
       \<and> (find (\<lambda>r. Token r = v) (refresh_tokens w) = None \<longrightarrow>
            fst (Refresh uc w v)
              = Inl (Unauthorized ''refresh token not found or already used'')
            \<and> refresh_tokens (snd (Refresh uc w v)) = refresh_tokens w)
       \<and> (\<forall>r. find (\<lambda>r. Token r = v) (refresh_tokens w) = Some r \<longrightarrow>
            IsExpired w r = (RefreshToken.ExpiresAt r < time_Now w)
            \<and> (RefreshToken.ExpiresAt r < time_Now w \<longrightarrow>
                 fst (Refresh uc w v)
                   = Inl (Unauthorized ''Refresh token has expired, please login again'')
                 \<and> refresh_tokens (snd (Refresh uc w v)) =
                     (if shd (stl (db_faults w)) = None
                      then filter (\<lambda>r. Token r \<noteq> v) (refresh_tokens w)
                      else refresh_tokens w)))"
proof -
  let ?nf = "Inl (Unauthorized ''refresh token not found or already used'')"
  let ?ex = "Inl (Unauthorized ''Refresh token has expired, please login again'')"
  let ?w1 = "w\<lparr>db_faults := stl (db_faults w)\<rparr>"
  have differ: "?nf \<noteq> (?ex :: error + TokenPair)"
    by (simp add: Unauthorized_def New_def)
  have absent: "fst (Refresh uc w v) = ?nf
            \<and> refresh_tokens (snd (Refresh uc w v)) = refresh_tokens w"
    if "find (\<lambda>r. Token r = v) (refresh_tokens w) = None"
    using that up by (simp add: Refresh_def GetByToken_eq)
  have dead: "fst (Refresh uc w v) = ?ex
                 \<and> refresh_tokens (snd (Refresh uc w v)) =
                     (if shd (stl (db_faults w)) = None
                      then filter (\<lambda>r. Token r \<noteq> v) (refresh_tokens w)
                      else refresh_tokens w)"
    if "find (\<lambda>r. Token r = v) (refresh_tokens w) = Some r"
      "RefreshToken.ExpiresAt r < time_Now w" for r
    using that up
    by (auto simp: Refresh_def GetByToken_eq DeleteByToken_eq IsExpired_iff time_Now_def
          split: option.splits)
  have live: "fst (Refresh uc w v) \<noteq> ?nf \<and> fst (Refresh uc w v) \<noteq> ?ex"
    if "find (\<lambda>r. Token r = v) (refresh_tokens w) = Some r"
      "time_Now w \<le> RefreshToken.ExpiresAt r" for r
    using Refresh_live [OF up that(1), of uc] that(2) by simp
  have valid: "(fst (Refresh uc w v) \<noteq> ?nf \<and> fst (Refresh uc w v) \<noteq> ?ex)
         = (\<exists>r. find (\<lambda>r. Token r = v) (refresh_tokens w) = Some r
                \<and> time_Now w \<le> RefreshToken.ExpiresAt r)"
  proof (cases "find (\<lambda>r. Token r = v) (refresh_tokens w)")
    case None
    with absent show ?thesis by simp
  next
    case (Some r)
    show ?thesis
    proof (cases "RefreshToken.ExpiresAt r < time_Now w")
      case True
      with dead [OF Some] Some show ?thesis by simp
    next
      case False
      with live [OF Some] Some show ?thesis by simp
    qed
  qed
  from valid absent dead IsExpired_iff show ?thesis by blast
qed

theorem Refresh_expiry_witness:
  "fst (Refresh uc0 world_late ''refresh-A'')
     = Inl (Unauthorized ''Refresh token has expired, please login again'')
   \<and> refresh_tokens (snd (Refresh uc0 world_late ''refresh-A'')) = []
   \<and> fst (Refresh uc0 world_late ''refresh-Z'')
     = Inl (Unauthorized ''refresh token not found or already used'')"
proof -
  have up: "shd (db_faults world_late) = None" "shd (stl (db_faults world_late)) = None"
    by (simp_all add: world_defs)
  have found: "find (\<lambda>r. Token r = ''refresh-A'') (refresh_tokens world_late) = Some refreshA"
    by (simp add: world_defs)
  have late: "RefreshToken.ExpiresAt refreshA < time_Now world_late"
    by (simp add: time_Now_def world_defs)
  have gone: "filter (\<lambda>r. Token r \<noteq> ''refresh-A'') (refresh_tokens world_late) = []"
    by (simp add: world_defs)
  have absent: "find (\<lambda>r. Token r = ''refresh-Z'') (refresh_tokens world_late) = None"
    by (simp add: world_defs)
  from Refresh_expiry [OF up(1), of uc0 "''refresh-A''"] found late up(2) gone
  have 1: "fst (Refresh uc0 world_late ''refresh-A'')
     = Inl (Unauthorized ''Refresh token has expired, please login again'')
   \<and> refresh_tokens (snd (Refresh uc0 world_late ''refresh-A'')) = []"
    by simp
  from Refresh_expiry [OF up(1), of uc0 "''refresh-Z''"] absent
  have 2: "fst (Refresh uc0 world_late ''refresh-Z'')
     = Inl (Unauthorized ''refresh token not found or already used'')"
    by simp
  from 1 2 show ?thesis by simp
qed

text \<open>
  The claim as it was written fails in three ways. At the expiry instant the record
  is not strictly in the future, and Refresh still rotates it. After the expiry, when
  the clean-up delete fails, Refresh answers "expired" and the record stays. And when
  the lookup itself fails, Refresh answers with an internal error and the record
  stays.
\<close>

theorem Refresh_expiry_counterexample:
  "find (\<lambda>r. Token r = ''refresh-A'') (refresh_tokens world_edge) = Some refreshA
   \<and> \<not> time_Now world_edge < RefreshToken.ExpiresAt refreshA
   \<and> fst (Refresh uc0 world_edge ''refresh-A'')
       = Inr (pairB\<lparr>AccessToken :=
                Compact SigningMethodHS256
                  (ClaimsJSON (claims0\<lparr>RegisteredClaims :=
                     \<lparr>Subject = ''user-1'', ExpiresAt = Some (2900 * Second),
                      NotBefore = None, IssuedAt = Some (2000 * Second)\<rparr>\<rparr>))
                  (HMAC_tag ''HS256'' ''access-secret''
                     (SigningMethodHS256,
                      ClaimsJSON (claims0\<lparr>RegisteredClaims :=
                        \<lparr>Subject = ''user-1'', ExpiresAt = Some (2900 * Second),
                         NotBefore = None, IssuedAt = Some (2000 * Second)\<rparr>\<rparr>)))\<rparr>)
   \<and> refresh_tokens (snd (Refresh uc0 world_edge ''refresh-A''))
       = [refreshB\<lparr>RefreshToken.ExpiresAt := 606800 * Second,
                   RefreshToken.CreatedAt := 2000 * Second\<rparr>]
   \<and> find (\<lambda>r. Token r = ''refresh-A'') (refresh_tokens world_late_second_fails) = Some refreshA
   \<and> RefreshToken.ExpiresAt refreshA < time_Now world_late_second_fails
   \<and> fst (Refresh uc0 world_late_second_fails ''refresh-A'')
       = Inl (Unauthorized ''Refresh token has expired, please login again'')
   \<and> refresh_tokens (snd (Refresh uc0 world_late_second_fails ''refresh-A'')) = [refreshA]
   \<and> fst (Refresh uc0 world_late_first_fails ''refresh-A'')
       = Inl (Internal (LibraryError ''connection reset by peer''))
   \<and> refresh_tokens (snd (Refresh uc0 world_late_first_fails ''refresh-A'')) = [refreshA]"
  by (simp add: run_defs date_defs world_defs token_defs pairB_def refreshB_def)

section \<open>Logout\<close>




section \<open>Register\<close>

text \<open>
  Claim C6, amended. When a user with the lowercased email exists, Register fails and
  changes no table, whatever the driver does, and the failure is the Conflict "Email
  is already registered" whenever the database executes the lookup. A registration
  that succeeds stores and returns the email lowercased, and a second registration
  whose email lowercases to the same text, with the lookup executed, is a Conflict
  that stores nothing.
\<close>

theorem Register_conflict_on_registered_email:
  "(list_ex (\<lambda>u. User.Email u = ToLower (RegisterInput.Email input)) (users w) \<longrightarrow>
      isl (fst (Register bc uc w input))
      \<and> users (snd (Register bc uc w input)) = users w
      \<and> refresh_tokens (snd (Register bc uc w input)) = refresh_tokens w
      \<and> (shd (db_faults w) = None \<longrightarrow>
           fst (Register bc uc w input) = Inl (Conflict ''Email is already registered'')))
   \<and> (\<forall>pub w'. Register bc uc w input = (Inr pub, w') \<longrightarrow>
         UserPublic.Email pub = ToLower (RegisterInput.Email input)
         \<and> (\<exists>row. users w' = users w @ [row]
               \<and> User.Email row = ToLower (RegisterInput.Email input))
         \<and> (\<forall>w2 again.
               users w2 = users w' \<and> shd (db_faults w2) = None
               \<and> ToLower (RegisterInput.Email again) = ToLower (RegisterInput.Email input) \<longrightarrow>
               fst (Register bc uc w2 again) = Inl (Conflict ''Email is already registered'')
               \<and> users (snd (Register bc uc w2 again)) = users w2))"
proof -
  have known: "isl (fst (Register bc uc w0 i0))
      \<and> users (snd (Register bc uc w0 i0)) = users w0
      \<and> refresh_tokens (snd (Register bc uc w0 i0)) = refresh_tokens w0
      \<and> (shd (db_faults w0) = None \<longrightarrow>
           fst (Register bc uc w0 i0) = Inl (Conflict ''Email is already registered''))"
    if ex: "list_ex (\<lambda>u. User.Email u = ToLower (RegisterInput.Email i0)) (users w0)"
    for w0 i0
  proof -
    from ex obtain u where
      "find (\<lambda>u. User.Email u = ToLower (RegisterInput.Email i0)) (users w0) = Some u"
      by (cases "find (\<lambda>u. User.Email u = ToLower (RegisterInput.Email i0)) (users w0)")
         (auto simp: find_None_iff list_ex_iff)
    with ex show ?thesis
      by (auto simp: Register_def GetByEmail_eq Create_eq Let_def list_ex_iff
            split: option.splits sum.splits)
  qed
  have stored: "UserPublic.Email pub = ToLower (RegisterInput.Email input)
         \<and> (\<exists>row. users w' = users w @ [row]
               \<and> User.Email row = ToLower (RegisterInput.Email input))
         \<and> (\<forall>w2 again.
               users w2 = users w' \<and> shd (db_faults w2) = None
               \<and> ToLower (RegisterInput.Email again) = ToLower (RegisterInput.Email input) \<longrightarrow>
               fst (Register bc uc w2 again) = Inl (Conflict ''Email is already registered'')
               \<and> users (snd (Register bc uc w2 again)) = users w2)"
    if ok: "Register bc uc w input = (Inr pub, w')" for pub w'
  proof -
    from Register_Inr [OF ok] obtain row where
      e: "UserPublic.Email pub = ToLower (RegisterInput.Email input)"
      and r: "users w' = users w @ [row]"
        "User.Email row = ToLower (RegisterInput.Email input)"
      by blast
    have "fst (Register bc uc w2 again) = Inl (Conflict ''Email is already registered'')
               \<and> users (snd (Register bc uc w2 again)) = users w2"
      if "users w2 = users w'" "shd (db_faults w2) = None"
        "ToLower (RegisterInput.Email again) = ToLower (RegisterInput.Email input)"
      for w2 again
    proof -
      from that r
      have "list_ex (\<lambda>u. User.Email u = ToLower (RegisterInput.Email again)) (users w2)"
        by (simp add: list_ex_iff)
      from known [OF this] that show ?thesis by simp
    qed
    with e r show ?thesis by blast
  qed
  from known [of input w] stored show ?thesis by blast
qed

theorem Register_conflict_on_registered_email_witness:
  "fst (Register bc0 uc0 world0 register_ann) = Inl (Conflict ''Email is already registered'')
   \<and> users (snd (Register bc0 uc0 world0 register_ann)) = [ann]
   \<and> UserPublic.Email (projr (fst (Register bc0 uc0 world0 register_bob))) = ''bob@x.com''"
proof -
  have known: "list_ex (\<lambda>u. User.Email u = ToLower (RegisterInput.Email register_ann))
                 (users world0)"
    by (simp add: register_ann_def lower_ann world_defs)
  have up: "shd (db_faults world0) = None" "users world0 = [ann]"
    by (simp_all add: world_defs)
  have "\<not> isl (fst (Register bc0 uc0 world0 register_bob))"
    by (simp add: Register_def GetByEmail_eq Create_eq register_bob_def lower_Bob world_defs)
  then have bob: "Register bc0 uc0 world0 register_bob
      = (Inr (projr (fst (Register bc0 uc0 world0 register_bob))),
         snd (Register bc0 uc0 world0 register_bob))"
    by (cases "fst (Register bc0 uc0 world0 register_bob)") (auto simp: prod_eq_iff)
  from Register_conflict_on_registered_email [of register_ann world0 bc0 uc0] known up
  have 1: "fst (Register bc0 uc0 world0 register_ann) = Inl (Conflict ''Email is already registered'')
   \<and> users (snd (Register bc0 uc0 world0 register_ann)) = [ann]"
    by simp
  from Register_conflict_on_registered_email [of register_bob world0 bc0 uc0] bob
  have 2: "UserPublic.Email (projr (fst (Register bc0 uc0 world0 register_bob))) = ''bob@x.com''"
    by (simp add: register_bob_def lower_Bob)
  from 1 2 show ?thesis by simp
qed

text \<open>
  The claim as it was written fails when the lookup fails: Ann's email is
  registered, the lookup is not answered, Register goes on to the insert, and the
  unique index refuses it as an Internal error, not a Conflict.
\<close>

theorem Register_conflict_counterexample:
  "ann \<in> set (users world_first_fails)
   \<and> User.Email ann = ToLower (RegisterInput.Email register_ann)
   \<and> fst (Register bc0 uc0 world_first_fails register_ann) = Inl (Internal duplicate_key)
   \<and> Code (Internal duplicate_key) = ErrInternal
   \<and> users (snd (Register bc0 uc0 world_first_fails register_ann)) = [ann]"
  by (simp add: Register_def GetByEmail_eq Create_eq register_ann_def lower_ann world_defs
        Internal_def NewWithCause_def)

text \<open>
  Claim C10. Register answers Conflict exactly when the lookup by email returns a
  user. Whatever error the lookup returns, Register goes on: if hashing fails it
  returns that failure wrapped as Internal, otherwise its result is that of creating
  the account; so after a lookup that failed, with the insert executed and no row in
  its way, the account exists. (When the email is registered and only the lookup
  failed, the insert is what refuses the duplicate, as an Internal error.)
\<close>

theorem Register_lookup_error_means_unregistered:
  "(fst (Register bc uc w input) = Inl (Conflict ''Email is already registered''))
     = (\<not> isl (fst (GetByEmail w (ToLower (RegisterInput.Email input)))))
   \<and> (\<forall>err w1. GetByEmail w (ToLower (RegisterInput.Email input)) = (Inl err, w1) \<longrightarrow>
        (\<forall>herr. GenerateFromPassword bc (RegisterInput.Password input) DefaultCost = Inl herr \<longrightarrow>
           Register bc uc w input = (Inl (Internal herr), w1))
        \<and> (\<forall>hash. GenerateFromPassword bc (RegisterInput.Password input) DefaultCost = Inr hash \<longrightarrow>
             Register bc uc w input =
               (case Create w1
                       \<lparr>User.ID = uuid_Nil,
                        User.Name = RegisterInput.Name input,
                        User.Email = ToLower (RegisterInput.Email input),
                        User.Password = hash,
                        User.Bio = [],
                        User.AvatarID = None,
                        User.CreatedAt = time_zero,
                        User.UpdatedAt = time_zero\<rparr> of
                  (Inl cerr, w2) \<Rightarrow> (Inl cerr, w2)
                | (Inr user', w2) \<Rightarrow> (Inr (ToPublic user'), w2))
             \<and> (shd (db_faults w1) = None
                \<and> \<not> list_ex (\<lambda>u. User.ID u = shd (db_uuids w1)
                                 \<or> User.Email u = ToLower (RegisterInput.Email input)) (users w1) \<longrightarrow>
                  \<not> isl (fst (Register bc uc w input))
                  \<and> list_ex (\<lambda>u. User.Email u = ToLower (RegisterInput.Email input)
                                 \<and> User.Password u = hash)
                       (users (snd (Register bc uc w input))))))"
proof -
  have iff: "(fst (Register bc uc w input) = Inl (Conflict ''Email is already registered''))
     = (\<not> isl (fst (GetByEmail w (ToLower (RegisterInput.Email input)))))"
    by (auto simp: Register_def Create_eq Let_def
          split: prod.splits option.splits sum.splits if_splits)
  have hashfail: "Register bc uc w input = (Inl (Internal herr), w1)"
    if "GetByEmail w (ToLower (RegisterInput.Email input)) = (Inl err, w1)"
      "GenerateFromPassword bc (RegisterInput.Password input) DefaultCost = Inl herr"
    for err w1 herr
    using that by (simp add: Register_def)
  have create: "Register bc uc w input =
               (case Create w1
                       \<lparr>User.ID = uuid_Nil,
                        User.Name = RegisterInput.Name input,
                        User.Email = ToLower (RegisterInput.Email input),
                        User.Password = hash,
                        User.Bio = [],
                        User.AvatarID = None,
                        User.CreatedAt = time_zero,
                        User.UpdatedAt = time_zero\<rparr> of
                  (Inl cerr, w2) \<Rightarrow> (Inl cerr, w2)
                | (Inr user', w2) \<Rightarrow> (Inr (ToPublic user'), w2))"
    if "GetByEmail w (ToLower (RegisterInput.Email input)) = (Inl err, w1)"
      "GenerateFromPassword bc (RegisterInput.Password input) DefaultCost = Inr hash"
    for err w1 hash
    using that by (simp add: Register_def Let_def)
  have created: "\<not> isl (fst (Register bc uc w input))
                  \<and> list_ex (\<lambda>u. User.Email u = ToLower (RegisterInput.Email input)
                                 \<and> User.Password u = hash)
                       (users (snd (Register bc uc w input)))"
    if "GetByEmail w (ToLower (RegisterInput.Email input)) = (Inl err, w1)"
      "GenerateFromPassword bc (RegisterInput.Password input) DefaultCost = Inr hash"
      "shd (db_faults w1) = None"
      "\<not> list_ex (\<lambda>u. User.ID u = shd (db_uuids w1)
                                 \<or> User.Email u = ToLower (RegisterInput.Email input)) (users w1)"
    for err w1 hash
    using that by (simp add: create [OF that(1,2)] Create_eq list_ex_iff)
  from iff hashfail create created show ?thesis by blast
qed

theorem Register_lookup_error_means_unregistered_witness:
  "fst (GetByEmail world_first_fails (ToLower (RegisterInput.Email register_bob)))
     = Inl (Internal (LibraryError ''connection reset by peer''))
   \<and> \<not> isl (fst (Register bc0 uc0 world_first_fails register_bob))
   \<and> list_ex (\<lambda>u. User.Email u = ''bob@x.com'' \<and> User.Password u = ''$2a$10$correct horse'')
        (users (snd (Register bc0 uc0 world_first_fails register_bob)))
   \<and> fst (Register bc0 uc0 world_first_fails register_ann) = Inl (Internal duplicate_key)"
proof -
  let ?w1 = "world_first_fails\<lparr>db_faults := sconst None\<rparr>"
  have get: "GetByEmail world_first_fails (ToLower (RegisterInput.Email register_bob))
     = (Inl (Internal (LibraryError ''connection reset by peer'')), ?w1)"
    by (simp add: GetByEmail_eq register_bob_def lower_Bob world_defs)
  have hash: "GenerateFromPassword bc0 (RegisterInput.Password register_bob) DefaultCost
     = Inr ''$2a$10$correct horse''"
    by (simp add: register_bob_def world_defs)
  have up: "shd (db_faults ?w1) = None"
    by simp
  have free: "\<not> list_ex (\<lambda>u. User.ID u = shd (db_uuids ?w1)
                  \<or> User.Email u = ToLower (RegisterInput.Email register_bob)) (users ?w1)"
    by (simp add: register_bob_def lower_Bob world_defs)
  from Register_lookup_error_means_unregistered [of bc0 uc0 world_first_fails register_bob]
    get hash up free
  have "\<not> isl (fst (Register bc0 uc0 world_first_fails register_bob))
      \<and> list_ex (\<lambda>u. User.Email u = ToLower (RegisterInput.Email register_bob)
                     \<and> User.Password u = ''$2a$10$correct horse'')
           (users (snd (Register bc0 uc0 world_first_fails register_bob)))"
    by blast
  moreover have "ToLower (RegisterInput.Email register_bob) = ''bob@x.com''"
    by (simp add: register_bob_def lower_Bob)
  moreover have "fst (Register bc0 uc0 world_first_fails register_ann)
      = Inl (Internal duplicate_key)"
    by (simp add: Register_def GetByEmail_eq Create_eq register_ann_def lower_ann world_defs)
  ultimately show ?thesis
    using get by simp
qed

section \<open>Access tokens\<close>

text \<open>
  Claim C4. \<^verbatim>\<open>ValidateAccessToken\<close> returns \<^verbatim>\<open>TokenExpired\<close> exactly for the token
  strings that are correctly signed with the configured secret and past their expiry.
  A string that is not a compact token, a payload that does not decode into the
  claims, a signing method outside the HMAC family, and a signature that is not the
  tag under the configured secret are each rejected, all four with one and the same
  error, the \<^verbatim>\<open>UNAUTHORIZED\<close> "invalid or malformed token" with status 401; so is every
  string that is not correctly signed, and no failure is anything but one of these
  two errors. What is accepted is correctly signed and not past its expiry.
\<close>

theorem ValidateAccessToken_error_kinds:
  "((ValidateAccessToken s w tokenStr = Inl TokenExpired) =
      (correctly_signed (AccessSecret (cfg s)) tokenStr \<and> past_expiry (time_Now w) tokenStr))
   \<and> (\<forall>x. ValidateAccessToken s w (NotCompact x)
            = Inl (Unauthorized ''invalid or malformed token''))
   \<and> (\<forall>m x sig. ValidateAccessToken s w (Compact m (OtherJSON x) sig)
            = Inl (Unauthorized ''invalid or malformed token''))
   \<and> (\<forall>m claims sig. (\<forall>alg. m \<noteq> SigningMethodHMAC alg) \<longrightarrow>
          ValidateAccessToken s w (Compact m (ClaimsJSON claims) sig)
            = Inl (Unauthorized ''invalid or malformed token''))
   \<and> (\<forall>alg claims sig.
          sig \<noteq> HMAC_tag alg (AccessSecret (cfg s)) (SigningMethodHMAC alg, ClaimsJSON claims) \<longrightarrow>
          ValidateAccessToken s w (Compact (SigningMethodHMAC alg) (ClaimsJSON claims) sig)
            = Inl (Unauthorized ''invalid or malformed token''))
   \<and> (\<not> correctly_signed (AccessSecret (cfg s)) tokenStr \<longrightarrow>
          ValidateAccessToken s w tokenStr = Inl (Unauthorized ''invalid or malformed token''))
   \<and> (\<forall>err. ValidateAccessToken s w tokenStr = Inl err \<longrightarrow>
          err = TokenExpired \<or> err = Unauthorized ''invalid or malformed token'')
   \<and> (\<forall>claims. ValidateAccessToken s w tokenStr = Inr claims \<longrightarrow>
          correctly_signed (AccessSecret (cfg s)) tokenStr
          \<and> \<not> past_expiry (time_Now w) tokenStr)
   \<and> TokenExpired \<noteq> Unauthorized ''invalid or malformed token''
   \<and> Code TokenExpired = ErrTokenExpired
   \<and> Code (Unauthorized ''invalid or malformed token'') = ErrUnauthorized
   \<and> HTTPStatus (Unauthorized ''invalid or malformed token'') = StatusUnauthorized"
proof -
  let ?U = "Inl (Unauthorized ''invalid or malformed token'') :: error + Claims"
  have garbage: "ValidateAccessToken s w (NotCompact x) = ?U" for x
    by (rule ValidateAccessToken_rejects_unsigned) (simp add: correctly_signed_def)
  have shape: "ValidateAccessToken s w (Compact m (OtherJSON x) sig) = ?U" for m x sig
    by (rule ValidateAccessToken_rejects_unsigned)
       (simp add: correctly_signed_def split: SigningMethod.splits)
  have family: "ValidateAccessToken s w (Compact m (ClaimsJSON claims) sig) = ?U"
    if "\<forall>alg. m \<noteq> SigningMethodHMAC alg" for m claims sig
    using that
    by (intro ValidateAccessToken_rejects_unsigned)
       (simp add: correctly_signed_def split: SigningMethod.splits)
  have mismatch:
    "ValidateAccessToken s w (Compact (SigningMethodHMAC alg) (ClaimsJSON claims) sig) = ?U"
    if "sig \<noteq> HMAC_tag alg (AccessSecret (cfg s)) (SigningMethodHMAC alg, ClaimsJSON claims)"
    for alg claims sig
    using that
    by (intro ValidateAccessToken_rejects_unsigned) (simp add: correctly_signed_def)
  have kinds: "err = TokenExpired \<or> err = Unauthorized ''invalid or malformed token''"
    if "ValidateAccessToken s w tokenStr = Inl err" for err
    using that ValidateAccessToken_other_errors [of s w tokenStr err] by blast
  have accepted: "correctly_signed (AccessSecret (cfg s)) tokenStr
          \<and> \<not> past_expiry (time_Now w) tokenStr"
    if "ValidateAccessToken s w tokenStr = Inr claims" for claims
    using that ValidateAccessToken_rejects_unsigned [of s tokenStr w]
      ValidateAccessToken_expired_iff [of s w tokenStr]
    by auto
  have codes: "TokenExpired \<noteq> Unauthorized ''invalid or malformed token''"
    "Code TokenExpired = ErrTokenExpired"
    "Code (Unauthorized ''invalid or malformed token'') = ErrUnauthorized"
    "HTTPStatus (Unauthorized ''invalid or malformed token'') = StatusUnauthorized"
    by (simp_all add: TokenExpired_def Unauthorized_def New_def)
  from ValidateAccessToken_expired_iff [of s w tokenStr] garbage shape family mismatch
    ValidateAccessToken_rejects_unsigned [of s tokenStr w] kinds accepted codes
  show ?thesis by blast
qed

theorem ValidateAccessToken_error_kinds_witness:
  "ValidateAccessToken (jwtService uc0) world_late access0 = Inl TokenExpired
   \<and> ValidateAccessToken (jwtService uc0) world_late forged0
       = Inl (Unauthorized ''invalid or malformed token'')
   \<and> ValidateAccessToken (jwtService uc0) world0 forged0
       = Inl (Unauthorized ''invalid or malformed token'')
   \<and> ValidateAccessToken (jwtService uc0) world0 unsigned0
       = Inl (Unauthorized ''invalid or malformed token'')
   \<and> ValidateAccessToken (jwtService uc0) world0 (NotCompact ''not.a.token'')
       = Inl (Unauthorized ''invalid or malformed token'')"
proof -
  have signed: "correctly_signed (AccessSecret (cfg (jwtService uc0))) access0"
    by (simp add: correctly_signed_def token_defs world_defs)
  have past: "past_expiry (time_Now world_late) access0"
    by (simp add: past_expiry_def time_Now_def token_defs world_defs)
  have forged: "\<not> correctly_signed (AccessSecret (cfg (jwtService uc0))) forged0"
    by (simp add: correctly_signed_def token_defs world_defs)
  have unsigned: "\<not> correctly_signed (AccessSecret (cfg (jwtService uc0))) unsigned0"
    by (simp add: correctly_signed_def token_defs world_defs)
  from ValidateAccessToken_error_kinds [of "jwtService uc0" world_late access0] signed past
  have 1: "ValidateAccessToken (jwtService uc0) world_late access0 = Inl TokenExpired"
    by blast
  from ValidateAccessToken_error_kinds [of "jwtService uc0" world_late forged0] forged
  have 2: "ValidateAccessToken (jwtService uc0) world_late forged0
       = Inl (Unauthorized ''invalid or malformed token'')"
    by blast
  from ValidateAccessToken_error_kinds [of "jwtService uc0" world0 forged0] forged
  have 3: "ValidateAccessToken (jwtService uc0) world0 forged0
       = Inl (Unauthorized ''invalid or malformed token'')"
    by blast
  from ValidateAccessToken_error_kinds [of "jwtService uc0" world0 unsigned0] unsigned
  have 4: "ValidateAccessToken (jwtService uc0) world0 unsigned0
       = Inl (Unauthorized ''invalid or malformed token'')"
    by blast
  from ValidateAccessToken_error_kinds [of "jwtService uc0" world0 unsigned0]
  have 5: "ValidateAccessToken (jwtService uc0) world0 (NotCompact ''not.a.token'')
       = Inl (Unauthorized ''invalid or malformed token'')"
    by blast
  from 1 2 3 4 5 show ?thesis by simp
qed

text \<open>
  Claim C5, amended. Claims round-trip until the expiry written into the token,
  which is issue time plus the access lifetime rounded down to a whole second: at
  any instant before it the token generated for a user id and an email validates
  under the same service, and the claims returned carry exactly that user id and
  that email; from that instant on validation answers \<^verbatim>\<open>TokenExpired\<close>. The written
  expiry is less than a second before issue time plus lifetime, and with a lifetime
  of at least a second the token validates at the instant it is issued.
\<close>

theorem access_token_roundtrip:
  "(time_Now w' < NewNumericDate (Add (time_Now w) (AccessExpiresDuration (cfg s))) \<longrightarrow>
      (\<exists>tokenStr claims.
           GenerateAccessToken s w userID email = Inr tokenStr
         \<and> ValidateAccessToken s w' tokenStr = Inr claims
         \<and> Claims.UserID claims = userID \<and> Claims.Email claims = email))
   \<and> (\<not> time_Now w' < NewNumericDate (Add (time_Now w) (AccessExpiresDuration (cfg s))) \<longrightarrow>
      (\<exists>tokenStr.
           GenerateAccessToken s w userID email = Inr tokenStr
         \<and> ValidateAccessToken s w' tokenStr = Inl TokenExpired))
   \<and> (Second \<le> AccessExpiresDuration (cfg s) \<longrightarrow>
      (\<exists>tokenStr claims.
           GenerateAccessToken s w userID email = Inr tokenStr
         \<and> ValidateAccessToken s w tokenStr = Inr claims
         \<and> Claims.UserID claims = userID \<and> Claims.Email claims = email))
   \<and> NewNumericDate (Add (time_Now w) (AccessExpiresDuration (cfg s)))
        \<le> Add (time_Now w) (AccessExpiresDuration (cfg s))
   \<and> Add (time_Now w) (AccessExpiresDuration (cfg s))
        < NewNumericDate (Add (time_Now w) (AccessExpiresDuration (cfg s))) + Second"
proof -
  have near: "Add (time_Now w) (AccessExpiresDuration (cfg s))
        < NewNumericDate (Add (time_Now w) (AccessExpiresDuration (cfg s))) + Second"
    by (simp add: date_defs Second_def)
  from roundtrip_valid [of w' w s userID email] roundtrip_expired [of w' w s userID email]
    roundtrip_valid [OF NewNumericDate_after, of s w userID email]
    NewNumericDate_le [of "Add (time_Now w) (AccessExpiresDuration (cfg s))"] near
  show ?thesis by blast
qed

theorem access_token_roundtrip_witness:
  "GenerateAccessToken (jwtService uc0) world0 ''user-1'' ''ann@x.com'' = Inr access0
   \<and> ValidateAccessToken (jwtService uc0) world0 access0 = Inr claims0
   \<and> ValidateAccessToken (jwtService uc0) world_late access0 = Inl TokenExpired"
proof -
  have exp: "NewNumericDate (Add (time_Now world0) (AccessExpiresDuration (cfg (jwtService uc0))))
      = 1900 * Second"
    by (simp add: date_defs Add_def time_Now_def world_defs)
  have before: "time_Now world0 < 1900 * Second" "\<not> time_Now world_late < 1900 * Second"
    by (simp_all add: time_Now_def world_defs)
  have gen: "GenerateAccessToken (jwtService uc0) world0 ''user-1'' ''ann@x.com'' = Inr access0"
    by (simp add: GenerateAccessToken_eq date_defs Add_def time_Now_def token_defs world_defs)
  from access_token_roundtrip [of world0 world0 "jwtService uc0" "''user-1''" "''ann@x.com''"]
    exp before(1) gen
  obtain claims where v: "ValidateAccessToken (jwtService uc0) world0 access0 = Inr claims"
    by auto
  then have "claims = claims0"
    by (simp add: ValidateAccessToken_def ParseWithClaims_def keyFunc_def Verify_def
          Validate_def token_defs world_defs split: if_splits)
  moreover
  from access_token_roundtrip [of world_late world0 "jwtService uc0" "''user-1''" "''ann@x.com''"]
    exp before(2) gen
  have "ValidateAccessToken (jwtService uc0) world_late access0 = Inl TokenExpired"
    by auto
  ultimately show ?thesis using gen v by simp
qed

text \<open>
  The claim as it was written fails in the last fraction of a second: a token issued
  at second 1000.5 for a quarter of an hour carries the expiry 1900, and at second
  1900.2, before the lifetime has elapsed, it is already expired.
\<close>

theorem access_token_roundtrip_counterexample:
  "time_Now world_almost < Add (time_Now world_half) (AccessExpiresDuration (cfg (jwtService uc0)))
   \<and> GenerateAccessToken (jwtService uc0) world_half ''user-1'' ''ann@x.com'' = Inr access0
   \<and> ValidateAccessToken (jwtService uc0) world_almost access0 = Inl TokenExpired"
  by (simp add: GenerateAccessToken_eq ValidateAccessToken_def ParseWithClaims_def keyFunc_def
        Verify_def Validate_def date_defs Add_def time_Now_def token_defs world_defs
        TokenExpired_def New_def)

end
